theory Spec2Isabelle
  imports Complex_Main "HOL-Library.Signed_Division" "HOL-Library.Product_Lexorder"
begin

section \<open>Geometry helpers of \<open>EAPlantUMLExporter\<close> (src/ea2puml.py)\<close>

text \<open>
  A rectangle is the dict \<open>{"x", "y", "w", "h"}\<close> built by \<open>rect\<close>; the coordinates are
  Python integers, hence unbounded.
\<close>

record rect =
  rx :: int
  ry :: int
  rw :: int
  rh :: int

text \<open>\<open>center\<close>: Python's \<open>//\<close> is floor division, as is \<open>div\<close> on \<open>int\<close>.\<close>

definition center :: "rect \<Rightarrow> int \<times> int" where
  "center r = (rx r + rw r div 2, ry r + rh r div 2)"

definition area :: "rect \<Rightarrow> int" where
  "area r = max 0 (rw r) * max 0 (rh r)"

definition overlap_area :: "rect \<Rightarrow> rect \<Rightarrow> int" where
  "overlap_area a b =
     (let x1 = max (rx a) (rx b);
          y1 = max (ry a) (ry b);
          x2 = min (rx a + rw a) (rx b + rw b);
          y2 = min (ry a + rh a) (ry b + rh b)
      in if x2 \<le> x1 \<or> y2 \<le> y1 then 0 else (x2 - x1) * (y2 - y1))"

definition center_inside :: "rect \<Rightarrow> rect \<Rightarrow> bool" where
  "center_inside inner_rect outer_rect =
     (case center inner_rect of (cx, cy) \<Rightarrow>
        cx \<ge> rx outer_rect \<and>
        cy \<ge> ry outer_rect \<and>
        cx \<le> rx outer_rect + rw outer_rect \<and>
        cy \<le> ry outer_rect + rh outer_rect)"

section \<open>Strings\<close>

text \<open>
  A Python \<open>str\<close> is modelled as a \<open>string\<close> whose characters are the code points below
  256. The character classes of the regular expressions used by the exporter are ASCII
  classes; \<open>py_isspace\<close> is \<open>str.isspace\<close> on that range, which is what \<open>str.strip()\<close>
  removes at both ends.
\<close>

definition is_upper :: "char \<Rightarrow> bool" where
  "is_upper c = (let n = (of_char c :: nat) in 65 \<le> n \<and> n \<le> 90)"

definition is_lower :: "char \<Rightarrow> bool" where
  "is_lower c = (let n = (of_char c :: nat) in 97 \<le> n \<and> n \<le> 122)"

definition is_digit :: "char \<Rightarrow> bool" where
  "is_digit c = (let n = (of_char c :: nat) in 48 \<le> n \<and> n \<le> 57)"

text \<open>The class \<open>[A-Za-z0-9]\<close>.\<close>

definition is_alnum :: "char \<Rightarrow> bool" where
  "is_alnum c = (is_upper c \<or> is_lower c \<or> is_digit c)"

text \<open>The class \<open>[A-Za-z0-9_]\<close>.\<close>

definition is_word :: "char \<Rightarrow> bool" where
  "is_word c = (is_alnum c \<or> c = CHR ''_'')"

definition py_isspace :: "char \<Rightarrow> bool" where
  "py_isspace c =
     (let n = (of_char c :: nat)
      in (9 \<le> n \<and> n \<le> 13) \<or> (28 \<le> n \<and> n \<le> 32) \<or> n = 133 \<or> n = 160)"

definition strip :: "string \<Rightarrow> string" where
  "strip s = rev (dropWhile py_isspace (rev (dropWhile py_isspace s)))"

text \<open>\<open>str(n)\<close> for an integer: decimal digits, with a sign for negative numbers.\<close>

definition digit_char :: "nat \<Rightarrow> char" where
  "digit_char d = char_of (48 + d)"

fun str_nat :: "nat \<Rightarrow> string" where
  "str_nat n = (if n < 10 then [digit_char n] else str_nat (n div 10) @ [digit_char (n mod 10)])"

declare str_nat.simps [simp del]

definition str_int :: "int \<Rightarrow> string" where
  "str_int i = (if i < 0 then CHR ''-'' # str_nat (nat (- i)) else str_nat (nat i))"

text \<open>\<open>sep.join(parts)\<close>.\<close>

fun join :: "string \<Rightarrow> string list \<Rightarrow> string" where
  "join sep [] = []"
| "join sep [p] = p"
| "join sep (p # q # ps) = p @ sep @ join sep (q # ps)"

text \<open>\<open>re.sub(r"[^A-Za-z0-9]", "", s)\<close>: every character outside the class is deleted.\<close>

definition sub_nonalnum_empty :: "string \<Rightarrow> string" where
  "sub_nonalnum_empty s = filter is_alnum s"

text \<open>
  \<open>re.sub(r"[^...]+", "_", s)\<close> for a negated character class: every maximal run of
  characters outside the class \<open>keep\<close> is replaced by one underscore.
\<close>

function sub_runs :: "(char \<Rightarrow> bool) \<Rightarrow> string \<Rightarrow> string" where
  "sub_runs keep [] = []"
| "sub_runs keep (c # cs) =
     (if keep c then c # sub_runs keep cs
      else CHR ''_'' # sub_runs keep (dropWhile (\<lambda>d. \<not> keep d) cs))"
  by pat_completeness auto
termination
  by (relation "measure (\<lambda>(keep, s). length s)") (auto simp: le_imp_less_Suc length_dropWhile_le)

text \<open>\<open>re.sub(r"[^A-Za-z0-9_]+", "_", s)\<close>.\<close>

definition sub_nonword_underscore :: "string \<Rightarrow> string" where
  "sub_nonword_underscore s = sub_runs is_word s"

text \<open>
  \<open>str.lower()\<close> on code points below 256: the ASCII capitals and the Latin-1 capitals
  (\<open>0xC0\<close> to \<open>0xDE\<close>, the multiplication sign \<open>0xD7\<close> apart) move up by 32.
\<close>

definition lower_char :: "char \<Rightarrow> char" where
  "lower_char c =
     (let n = (of_char c :: nat)
      in if (65 \<le> n \<and> n \<le> 90) \<or> (192 \<le> n \<and> n \<le> 222 \<and> n \<noteq> 215) then char_of (n + 32) else c)"

definition lower :: "string \<Rightarrow> string" where
  "lower s = map lower_char s"

text \<open>
  \<open>str.upper()\<close> is only applied to the colour string \<open>#rrggbb\<close>, whose characters are
  ASCII: the small ASCII letters move down by 32.
\<close>

definition upper_char :: "char \<Rightarrow> char" where
  "upper_char c = (let n = (of_char c :: nat) in if 97 \<le> n \<and> n \<le> 122 then char_of (n - 32) else c)"

definition upper :: "string \<Rightarrow> string" where
  "upper s = map upper_char s"

text \<open>\<open>s.startswith(p)\<close> and the substring test \<open>sub in s\<close>.\<close>

fun startswith :: "string \<Rightarrow> string \<Rightarrow> bool" where
  "startswith s [] = True"
| "startswith [] (p # ps) = False"
| "startswith (c # cs) (p # ps) = (c = p \<and> startswith cs ps)"

fun contains :: "string \<Rightarrow> string \<Rightarrow> bool" where
  "contains [] sub = (sub = [])"
| "contains (c # cs) sub = (startswith (c # cs) sub \<or> contains cs sub)"

text \<open>
  \<open>s.replace(old, new)\<close> for a non-empty \<open>old\<close> (the exporter only replaces the
  backslash, the double quote and \<open>0x\<close>): leftmost non-overlapping occurrences.
\<close>

function replace :: "string \<Rightarrow> string \<Rightarrow> string \<Rightarrow> string" where
  "replace [] old new = []"
| "replace (c # cs) old new =
     (if old \<noteq> [] \<and> startswith (c # cs) old
      then new @ replace (drop (length old) (c # cs)) old new
      else c # replace cs old new)"
  by pat_completeness auto
termination
  by (relation "measure (\<lambda>(s, old, new). length s)") (auto simp: neq_Nil_conv)

text \<open>
  \<open>str.splitlines()\<close> on code points below 256. The line boundaries are line feed,
  carriage return, carriage return followed by line feed, vertical tab, form feed,
  \<open>0x1C\<close>, \<open>0x1D\<close>, \<open>0x1E\<close> and \<open>0x85\<close>; a boundary at the very end opens no further
  line. \<open>cur\<close> holds the current line, reversed.
\<close>

definition is_linebreak :: "char \<Rightarrow> bool" where
  "is_linebreak c =
     (let n = (of_char c :: nat) in (10 \<le> n \<and> n \<le> 13) \<or> (28 \<le> n \<and> n \<le> 30) \<or> n = 133)"

fun splitlines_from :: "string \<Rightarrow> string \<Rightarrow> string list" where
  "splitlines_from cur [] = (if cur = [] then [] else [rev cur])"
| "splitlines_from cur (c # cs) =
     (if c = CHR 0x0D \<and> cs \<noteq> [] \<and> hd cs = CHR 0x0A then rev cur # splitlines_from [] (tl cs)
      else if is_linebreak c then rev cur # splitlines_from [] cs
      else splitlines_from (c # cur) cs)"

definition splitlines :: "string \<Rightarrow> string list" where
  "splitlines s = splitlines_from [] s"

text \<open>\<open>hex(n)\<close>: small hexadecimal digits after \<open>0x\<close>, with a sign for negative numbers.\<close>

definition hex_digit :: "nat \<Rightarrow> char" where
  "hex_digit d = (if d < 10 then char_of (48 + d) else char_of (87 + d))"

fun hex_nat :: "nat \<Rightarrow> string" where
  "hex_nat n = (if n < 16 then [hex_digit n] else hex_nat (n div 16) @ [hex_digit (n mod 16)])"

declare hex_nat.simps [simp del]

definition py_hex :: "int \<Rightarrow> string" where
  "py_hex i = (if i < 0 then ''-0x'' @ hex_nat (nat (- i)) else ''0x'' @ hex_nat (nat i))"

text \<open>
  A Python dict keeps its keys in insertion order; assigning to a key that is present
  replaces the value in place. The dicts of the exporter are association lists.
\<close>

fun dict_set :: "('k \<times> 'v) list \<Rightarrow> 'k \<Rightarrow> 'v \<Rightarrow> ('k \<times> 'v) list" where
  "dict_set [] k v = [(k, v)]"
| "dict_set ((k', v') # d) k v = (if k' = k then (k, v) # d else (k', v') # dict_set d k v)"

definition dict_get :: "('k \<times> 'v) list \<Rightarrow> 'k \<Rightarrow> 'v option" where
  "dict_get d k = map_of d k"

definition dict_setdefault :: "('k \<times> 'v) list \<Rightarrow> 'k \<Rightarrow> 'v \<Rightarrow> ('k \<times> 'v) list" where
  "dict_setdefault d k v = (case dict_get d k of None \<Rightarrow> d @ [(k, v)] | Some _ \<Rightarrow> d)"

section \<open>Helpers of the monolith (src/ea2puml.py)\<close>

definition puml_escape_inline :: "string \<Rightarrow> string" where
  "puml_escape_inline text =
     replace (replace text [CHR 0x5C] [CHR 0x5C, CHR 0x5C]) [CHR 0x22] [CHR 0x5C, CHR 0x22]"

text \<open>\<open>ea_color_long_to_hex\<close>; the argument \<open>None\<close> does not occur, \<open>getattr\<close> defaults to \<open>-1\<close>.\<close>

definition ea_color_long_to_hex :: "int \<Rightarrow> string option" where
  "ea_color_long_to_hex ea_long =
     (if ea_long = - 1 then None
      else
        let hx = replace (py_hex ea_long) ''0x'' '''';
            hx = replicate (6 - length hx) (CHR ''0'') @ drop (length hx - 6) hx;
            b = take 2 hx; g = take 2 (drop 2 hx); r = take 2 (drop 4 hx)
        in Some (upper (''#'' @ r @ g @ b)))"

text \<open>The table \<open>ELEMENT_TYPE_TO_PUML\<close>.\<close>

definition ELEMENT_TYPE_TO_PUML :: "(string \<times> string) list" where
  "ELEMENT_TYPE_TO_PUML =
     [(''Class'', ''class''), (''Interface'', ''interface''), (''Enumeration'', ''enum''),
      (''Component'', ''component''), (''Node'', ''node''), (''Artifact'', ''artifact''),
      (''Actor'', ''actor''), (''UseCase'', ''usecase''), (''Package'', ''package''),
      (''State'', ''state''), (''Device'', ''node''), (''Text'', ''rectangle''), (''Note'', ''note''),
      (''Boundary'', ''rectangle''), (''Activity'', ''rectangle''), (''Requirement'', ''rectangle''),
      (''Environment'', ''frame'')]"

definition relation_for_type :: "string \<Rightarrow> string \<times> string" where
  "relation_for_type conn_type =
     (let t = lower conn_type in
      if t = ''association'' then (''--'', ''>'')
      else if t = ''dependency'' then (''..'', ''>'')
      else if t \<in> set [''realization'', ''realisation''] then (''..'', ''|>'')
      else if t \<in> set [''generalization'', ''inheritance''] then (''--'', ''|>'')
      else if t = ''aggregation'' then (''o-'', ''>'')
      else if t = ''composition'' then (''*-'', ''>'')
      else if t \<in> set [''informationflow'', ''information flow''] then (''..'', ''>'')
      else if t \<in> set [''controlflow'', ''control flow'', ''flow''] then (''-'', ''->'')
      else (''--'', ''>''))"

section \<open>Alias helpers (src/ea2puml.py and src/ea2puml/utils.py, identical)\<close>

text \<open>
  What \<open>sanitize_alias\<close> reads from the Python runtime: the four bytes that
  \<open>os.urandom(4)\<close> returns at this call, and the built-in \<open>hash\<close> on \<open>bytes\<close> and on
  \<open>str\<close> objects (both salted per process by the interpreter).
\<close>

record runtime =
  urandom4 :: string
  hash_bytes :: "string \<Rightarrow> int"
  hash_str :: "string \<Rightarrow> int"

definition sanitize_alias :: "runtime \<Rightarrow> string \<Rightarrow> string" where
  "sanitize_alias rt guid =
     (if guid = [] then ''E_'' @ str_int \<bar>hash_bytes rt (urandom4 rt)\<bar>
      else
        let g = sub_nonalnum_empty guid;
            g = (if g = [] then ''E'' @ str_int (\<bar>hash_str rt guid\<bar> mod 10 ^ 8) else g)
        in ''E_'' @ take 16 g)"

definition slugify_name :: "string \<Rightarrow> string" where
  "slugify_name name =
     (let s = sub_nonword_underscore (strip name);
          s = (if s = [] \<or> is_digit (hd s) then ''E_'' @ s else s)
      in if length s > 40 then take 40 s else s)"

text \<open>\<open>AliasFactory\<close>: the mode and the dict \<open>counts\<close>.\<close>

record alias_factory =
  mode :: string
  counts :: "string \<rightharpoonup> int"

definition new_alias_factory :: "string \<Rightarrow> alias_factory" where
  "new_alias_factory m = \<lparr>mode = m, counts = Map.empty\<rparr>"

text \<open>
  \<open>AliasFactory.make\<close>, here \<open>make_alias\<close> (every record declares a constant \<open>make\<close>): it
  returns the alias and the factory with \<open>counts\<close> updated.
\<close>

definition make_alias :: "runtime \<Rightarrow> alias_factory \<Rightarrow> string \<Rightarrow> string \<Rightarrow> string \<times> alias_factory" where
  "make_alias rt af guid name =
     (if mode af = ''uuid'' then (sanitize_alias rt guid, af)
      else if mode af = ''human'' then
        (let base = (let s = slugify_name name in if s = [] then ''E'' else s);
             n = (case counts af base of None \<Rightarrow> 0 | Some k \<Rightarrow> k)
         in (if n = 0 then base else base @ ''_'' @ str_int (n + 1),
             af\<lparr>counts := (counts af)(base \<mapsto> n + 1)\<rparr>))
      else ('''', af))"

text \<open>
  A run makes its allocations one after the other on the same factory; each call comes
  with the runtime it sees, the shape's GUID and its display name.
\<close>

fun make_seq :: "alias_factory \<Rightarrow> (runtime \<times> string \<times> string) list \<Rightarrow> string list \<times> alias_factory" where
  "make_seq af [] = ([], af)"
| "make_seq af ((rt, guid, name) # calls) =
     (case make_alias rt af guid name of
        (a, af') \<Rightarrow> (case make_seq af' calls of (as, af'') \<Rightarrow> (a # as, af'')))"

section \<open>The diagram as the modelling tool hands it over\<close>

text \<open>
  The COM objects the exporter reads, as data. A repository lookup
  (\<open>GetElementByID\<close>, \<open>GetConnectorByID\<close>, \<open>GetDiagramByID\<close>) is resolved in the input:
  a placed object comes with its model element and, for a diagram frame, with the
  diagram it shows; a link comes with its connector. A string attribute that is \<open>None\<close>
  reads as the empty string (\<open>x or ""\<close>). The runtime of a placed object is the runtime
  its alias allocation sees.
\<close>

record tagged_value =
  tv_name :: string
  tv_value :: "string option"
  tv_notes :: "string option"

record ea_element =
  e_name :: string
  e_type :: string
  e_stereotype :: string
  e_notes :: string
  e_tagged_values :: "tagged_value list option"

record diagram_object =
  do_element_id :: int
  do_instance_guid :: string
  do_left :: int
  do_right :: int
  do_top :: int
  do_bottom :: int
  do_background_color :: int
  do_show_tags :: bool

record ea_connector =
  c_name :: string
  c_type :: string
  c_stereotype :: string
  c_direction :: string
  c_client_id :: int
  c_supplier_id :: int

record diagram_link =
  dl_connector_id :: int
  dl_is_hidden :: bool
  dl_source_instance_uid :: string
  dl_target_instance_uid :: string
  dl_line_color :: int
  dl_line_width :: int
  dl_hidden_labels :: bool

datatype diagram =
  Diagram (dg_name: string) (dg_type: string) (dg_objects: "placed list")
    (dg_links: "(diagram_link \<times> ea_connector) list")
and placed =
  Placed (p_dobj: diagram_object) (p_elem: ea_element) (p_rt: runtime) (p_sub: "diagram option")

datatype error = KeyError string | RuntimeError string | AttributeError string

section \<open>The exporter state (\<open>EAPlantUMLExporter\<close>)\<close>

record element =
  el_guid :: string
  el_alias :: string
  el_name :: string
  el_type :: string
  el_stereotype :: string
  el_notes :: string
  el_show_tags :: bool
  el_bg_hex :: "string option"
  el_raw :: ea_element
  el_dobj :: diagram_object
  el_rect :: rect

record package =
  pk_guid :: string
  pk_name :: string
  pk_alias :: string
  pk_color :: "string option"
  pk_rect :: rect

record connector =
  cn_id :: string
  cn_name :: string
  cn_type :: string
  cn_stereotype :: string
  cn_direction :: string
  cn_source_uid :: string
  cn_target_uid :: string
  cn_line_hex :: "string option"
  cn_line_width :: int
  cn_hidden_labels :: bool
  cn_raw :: ea_connector
  cn_dlnk :: diagram_link

record exporter =
  include_tags :: bool
  include_colors :: bool
  element_stereo :: string
  edge_labels :: string
  direction :: "string option"
  skin :: bool
  autolayout :: bool
  explore :: bool
  alias_mode :: string
  interface_style :: string
  alias_factory :: alias_factory
  elements :: "(string \<times> element) list"
  connectors :: "(string \<times> connector) list"
  alias_by_guid :: "(string \<times> string) list"
  packages :: "(string \<times> package) list"
  members_in_pkg :: "(string \<times> string list) list"
  elemid_to_instuid :: "(int \<times> string) list"

text \<open>\<open>__init__\<close>: the options, a fresh alias factory and empty collections.\<close>

definition new_exporter ::
  "bool \<Rightarrow> bool \<Rightarrow> string \<Rightarrow> string \<Rightarrow> string option \<Rightarrow> bool \<Rightarrow> bool \<Rightarrow> bool \<Rightarrow> string \<Rightarrow> string
     \<Rightarrow> exporter" where
  "new_exporter include_tags0 include_colors0 element_stereo0 edge_labels0 direction0 skin0
       autolayout0 explore0 alias_mode0 interface_style0 =
     \<lparr>include_tags = include_tags0, include_colors = include_colors0,
      element_stereo = element_stereo0, edge_labels = edge_labels0, direction = direction0,
      skin = skin0, autolayout = autolayout0, explore = explore0, alias_mode = alias_mode0,
      interface_style = interface_style0, alias_factory = new_alias_factory alias_mode0,
      elements = [], connectors = [], alias_by_guid = [], packages = [],
      members_in_pkg = [], elemid_to_instuid = []\<rparr>"

text \<open>\<open>rect\<close>: the rectangle of a placed object, in top-left-origin coordinates.\<close>

definition rect_of :: "diagram_object \<Rightarrow> int \<Rightarrow> int \<Rightarrow> rect" where
  "rect_of dobj cornerX cornerY =
     \<lparr>rx = do_left dobj + cornerX, ry = - do_top dobj + cornerY,
      rw = do_right dobj - do_left dobj, rh = - (do_bottom dobj - do_top dobj)\<rparr>"

section \<open>\<open>gather\<close>\<close>

text \<open>
  The truth value of an optional string: \<open>None\<close> and the empty string are false.
\<close>

definition truthy :: "string option \<Rightarrow> bool" where
  "truthy v = (case v of None \<Rightarrow> False | Some s \<Rightarrow> s \<noteq> [])"

definition resolve_endpoint_uid ::
  "exporter \<Rightarrow> diagram_link \<Rightarrow> ea_connector \<Rightarrow> string \<Rightarrow> string option" where
  "resolve_endpoint_uid ex dlnk dconn which =
     (let uid = (if which = ''source'' then dl_source_instance_uid dlnk
                 else dl_target_instance_uid dlnk)
      in if uid \<noteq> [] \<and> dict_get (elements ex) uid \<noteq> None then Some uid
         else
           let elem_id = (if which = ''source'' then c_client_id dconn else c_supplier_id dconn)
           in dict_get (elemid_to_instuid ex) elem_id)"

text \<open>
  The body of the first loop of \<open>gather\<close> for one placed object, up to the descent into
  a sub-diagram. The diagnostic listing of \<open>explore\<close> goes to standard output and is not
  part of the state.
\<close>

definition gather_object :: "exporter \<Rightarrow> placed \<Rightarrow> int \<Rightarrow> int \<Rightarrow> exporter" where
  "gather_object ex p cornerX cornerY =
     (let dObj = p_dobj p;
          dElem = p_elem p;
          inst_guid = do_instance_guid dObj;
          ex = ex\<lparr>elemid_to_instuid :=
                    dict_setdefault (elemid_to_instuid ex) (do_element_id dObj) inst_guid\<rparr>;
          (alias, af) = make_alias (p_rt p) (alias_factory ex) inst_guid (e_name dElem);
          ex = ex\<lparr>alias_factory := af,
                  alias_by_guid := dict_set (alias_by_guid ex) inst_guid alias\<rparr>;
          r = rect_of dObj cornerX cornerY;
          bg = (if include_colors ex then ea_color_long_to_hex (do_background_color dObj)
                else None);
          el = \<lparr>el_guid = inst_guid, el_alias = alias, el_name = e_name dElem,
                el_type = e_type dElem, el_stereotype = e_stereotype dElem,
                el_notes = e_notes dElem, el_show_tags = do_show_tags dObj, el_bg_hex = bg,
                el_raw = dElem, el_dobj = dObj, el_rect = r\<rparr>;
          ex = ex\<lparr>elements := dict_set (elements ex) inst_guid el\<rparr>
      in if el_type el = ''Package''
         then ex\<lparr>packages := dict_set (packages ex) inst_guid
                      \<lparr>pk_guid = inst_guid, pk_name = el_name el, pk_alias = alias,
                       pk_color = bg, pk_rect = r\<rparr>\<rparr>
         else ex)"

text \<open>
  The second loop: geometry-based package membership. \<open>inside\<close> is the local variable of
  that name; \<open>0.5 * area\<close> is a float in the source, here a real number.
\<close>

definition inside :: "rect \<Rightarrow> rect \<Rightarrow> bool" where
  "inside erect preg =
     (let ov = overlap_area erect preg
      in center_inside erect preg \<or> real_of_int ov \<ge> 0.5 * real_of_int (area erect))"

definition members_for :: "exporter \<Rightarrow> string \<Rightarrow> package \<Rightarrow> string list" where
  "members_for ex pkg_guid pkg =
     map fst (filter (\<lambda>(guid, el). guid \<noteq> pkg_guid \<and> inside (el_rect el) (pk_rect pkg))
                (elements ex))"

definition gather_members :: "exporter \<Rightarrow> exporter" where
  "gather_members ex =
     ex\<lparr>members_in_pkg :=
          fold (\<lambda>(pkg_guid, pkg) m. dict_set m pkg_guid (members_for ex pkg_guid pkg))
            (packages ex) (members_in_pkg ex)\<rparr>"

text \<open>The third loop: the connectors of the links that are shown and resolve.\<close>

definition gather_link :: "exporter \<Rightarrow> diagram_link \<times> ea_connector \<Rightarrow> exporter" where
  "gather_link ex l =
     (case l of (dLnk, dConn) \<Rightarrow>
        if dl_is_hidden dLnk then ex
        else
          let source_uid = resolve_endpoint_uid ex dLnk dConn ''source'';
              target_uid = resolve_endpoint_uid ex dLnk dConn ''target''
          in if \<not> truthy source_uid \<or> \<not> truthy target_uid then ex
             else
               let conn = \<lparr>cn_id = str_int (dl_connector_id dLnk), cn_name = c_name dConn,
                           cn_type = c_type dConn, cn_stereotype = c_stereotype dConn,
                           cn_direction = (if c_direction dConn = [] then ''Unspecified''
                                           else c_direction dConn),
                           cn_source_uid = the source_uid, cn_target_uid = the target_uid,
                           cn_line_hex = (if include_colors ex
                                          then ea_color_long_to_hex (dl_line_color dLnk)
                                          else None),
                           cn_line_width = dl_line_width dLnk,
                           cn_hidden_labels = dl_hidden_labels dLnk,
                           cn_raw = dConn, cn_dlnk = dLnk\<rparr>
               in ex\<lparr>connectors := dict_set (connectors ex) (cn_id conn) conn\<rparr>)"

definition gather_links :: "exporter \<Rightarrow> (diagram_link \<times> ea_connector) list \<Rightarrow> exporter" where
  "gather_links ex links = fold (\<lambda>l ex'. gather_link ex' l) links ex"

text \<open>
  \<open>gather\<close> itself. A frame of type \<open>UMLDiagram\<close> is expanded by a recursive call with
  the frame's corner as offset; reading a frame whose diagram is missing fails.
\<close>

fun gather :: "exporter \<Rightarrow> diagram \<Rightarrow> int \<Rightarrow> int \<Rightarrow> error + exporter"
and gather_objects :: "exporter \<Rightarrow> placed list \<Rightarrow> int \<Rightarrow> int \<Rightarrow> error + exporter" where
  "gather ex (Diagram nm ty objs links) cornerX cornerY =
     (case gather_objects ex objs cornerX cornerY of
        Inl e \<Rightarrow> Inl e
      | Inr ex1 \<Rightarrow> Inr (gather_links (gather_members ex1) links))"
| "gather_objects ex [] cornerX cornerY = Inr ex"
| "gather_objects ex (Placed dObj dElem rt sub # ps) cornerX cornerY =
     (let ex1 = gather_object ex (Placed dObj dElem rt sub) cornerX cornerY
      in if e_type dElem = ''UMLDiagram''
         then (case sub of
                 None \<Rightarrow> Inl (AttributeError ''DiagramObjects'')
               | Some d \<Rightarrow>
                   (case gather ex1 d (do_left dObj) (- do_top dObj) of
                      Inl e \<Rightarrow> Inl e
                    | Inr ex2 \<Rightarrow> gather_objects ex2 ps cornerX cornerY))
         else gather_objects ex1 ps cornerX cornerY)"

section \<open>Rendering (monolith)\<close>

abbreviation dq :: char where "dq \<equiv> CHR 0x22"

abbreviation nl :: string where "nl \<equiv> [CHR 0x0A]"

definition render_header :: "exporter \<Rightarrow> diagram \<Rightarrow> string" where
  "render_header ex diagram =
     join nl
       ([''@startuml'', ''title '' @ [dq] @ puml_escape_inline (dg_name diagram) @ [dq]]
        @ (if direction ex = Some ''LR'' then [''left to right direction'']
           else if direction ex = Some ''TB''
           then [CHR 0x27 # '' top to bottom direction (PlantUML default)'']
           else [])
        @ (if skin ex
           then ['''', CHR 0x27 # '' --- optional skinparams ---'',
                 ''skinparam defaultFontName Arial'', ''skinparam shadowing false'',
                 ''skinparam classAttributeIconSize 0'', ''skinparam wrapWidth 200'',
                 ''skinparam dpi 144'']
           else [])
        @ (if autolayout ex then ['''', ''autolayout''] else [])
        @ [''''])"

definition render_footer :: string where
  "render_footer = nl @ ''@enduml'' @ nl"

definition ref_token :: "exporter \<Rightarrow> element \<Rightarrow> string" where
  "ref_token ex el =
     (if alias_mode ex = ''name'' then [dq] @ puml_escape_inline (el_name el) @ [dq]
      else el_alias el)"

definition element_decl :: "exporter \<Rightarrow> element \<Rightarrow> string" where
  "element_decl ex el =
     (let name = el_name el; st = el_stereotype el; etype = el_type el; alias = el_alias el;
          bg = el_bg_hex el;
          keyword = (case dict_get ELEMENT_TYPE_TO_PUML etype of
                       None \<Rightarrow> ''rectangle'' | Some k \<Rightarrow> k)
      in if etype \<in> set [''Note'', ''Text'']
         then
           let txt = (if el_notes el \<noteq> [] then el_notes el else name);
               lines = [''note as '' @ (if alias \<noteq> [] then alias
                                       else if slugify_name name \<noteq> [] then slugify_name name
                                       else ''Note_1'')];
               lines = (if txt \<noteq> [] then lines @ splitlines txt else lines);
               lines = lines @ [''end note'']
           in join nl lines
         else
           let name_disp = (if \<not> (element_stereo ex = ''on'' \<and> st \<noteq> []) \<and>
                                element_stereo ex = ''inname'' \<and> st \<noteq> []
                            then name @ '' <<'' @ st @ ''>>'' else name);
               stereo_suffix = (if element_stereo ex = ''on'' \<and> st \<noteq> []
                                then '' <<'' @ st @ ''>>'' else '''');
               disp = [dq] @ puml_escape_inline name_disp @ [dq];
               color = (if truthy bg then '' '' @ the bg else '''')
           in if etype = ''Interface'' \<and> interface_style ex = ''lollipop''
              then (if alias_mode ex = ''name'' then ''() '' @ disp @ color
                    else ''() '' @ disp @ '' as '' @ alias @ color)
              else (if alias_mode ex = ''name'' then keyword @ stereo_suffix @ '' '' @ disp @ color
                    else keyword @ stereo_suffix @ '' '' @ disp @ '' as '' @ alias @ color))"

text \<open>The line a tagged value contributes to the tag block, if any.\<close>

definition tag_line :: "tagged_value \<Rightarrow> string list" where
  "tag_line tv =
     (let val = tv_value tv;
          val = (if val = None \<or> strip (the val) = []
                 then (if truthy (tv_notes tv) \<and> strip (the (tv_notes tv)) \<noteq> []
                       then tv_notes tv else val)
                 else val)
      in if val \<noteq> None \<and> strip (the val) \<noteq> [] then [tv_name tv @ ''='' @ the val] else [])"

definition tag_block_for_element :: "exporter \<Rightarrow> element \<Rightarrow> string option" where
  "tag_block_for_element ex el =
     (case e_tagged_values (el_raw el) of
        None \<Rightarrow> None
      | Some tvs \<Rightarrow>
          if length tvs = 0 then None
          else if \<not> (include_tags ex \<or> el_show_tags el) then None
          else
            let lines = concat (map tag_line tvs)
            in if lines = [] then None
               else Some (''note right of '' @ ref_token ex el @ nl @ join nl lines @ nl @ ''end note''))"

text \<open>
  \<open>render_elements_grouped\<close>. Each loop body returns the lines it appends to \<open>out\<close> and
  the GUIDs it adds to \<open>emitted\<close>; \<open>self.elements[guid]\<close> raises \<open>KeyError\<close> for a GUID
  that is not a key.
\<close>

definition emit_element :: "exporter \<Rightarrow> element \<Rightarrow> string list" where
  "emit_element ex el =
     element_decl ex el #
     (case tag_block_for_element ex el of
        None \<Rightarrow> [] | Some tagb \<Rightarrow> if tagb \<noteq> [] then [tagb] else [])"

fun member_lines :: "exporter \<Rightarrow> string list \<Rightarrow> error + (string list \<times> string list)" where
  "member_lines ex [] = Inr ([], [])"
| "member_lines ex (guid # guids) =
     (case dict_get (elements ex) guid of
        None \<Rightarrow> Inl (KeyError guid)
      | Some el \<Rightarrow>
          (case member_lines ex guids of
             Inl e \<Rightarrow> Inl e
           | Inr (ls, em) \<Rightarrow>
               if el_type el = ''Package'' then Inr (ls, em)
               else Inr (emit_element ex el @ ls, guid # em)))"

definition package_header :: "package \<Rightarrow> string" where
  "package_header pkg =
     (let name = pk_name pkg;
          color = (case pk_color pkg of None \<Rightarrow> '''' | Some c \<Rightarrow> c)
      in ''package '' @ [dq] @ puml_escape_inline name @ [dq]
         @ (if color \<noteq> [] then '' '' @ color else '''') @ '' {'')"

definition package_block :: "exporter \<Rightarrow> package \<Rightarrow> error + (string list \<times> string list)" where
  "package_block ex pkg =
     (case member_lines ex (case dict_get (members_in_pkg ex) (pk_guid pkg) of
                              None \<Rightarrow> [] | Some ms \<Rightarrow> ms) of
        Inl e \<Rightarrow> Inl e
      | Inr (ls, em) \<Rightarrow> Inr (package_header pkg # ls @ [''}'', ''''], em))"

fun package_blocks :: "exporter \<Rightarrow> package list \<Rightarrow> error + (string list \<times> string list)" where
  "package_blocks ex [] = Inr ([], [])"
| "package_blocks ex (pkg # pkgs) =
     (case package_block ex pkg of
        Inl e \<Rightarrow> Inl e
      | Inr (ls, em) \<Rightarrow>
          (case package_blocks ex pkgs of
             Inl e \<Rightarrow> Inl e
           | Inr (ls', em') \<Rightarrow> Inr (ls @ ls', em @ em')))"

definition sorted_pkgs :: "exporter \<Rightarrow> package list" where
  "sorted_pkgs ex = sort_key (\<lambda>p. (ry (pk_rect p), rx (pk_rect p))) (map snd (packages ex))"

definition leftovers :: "exporter \<Rightarrow> string list \<Rightarrow> (string \<times> element) list" where
  "leftovers ex emitted =
     filter (\<lambda>(guid, el). \<not> (el_type el = ''Package'' \<or> guid \<in> set emitted)) (elements ex)"

definition render_elements_grouped :: "exporter \<Rightarrow> error + string" where
  "render_elements_grouped ex =
     (case package_blocks ex (sorted_pkgs ex) of
        Inl e \<Rightarrow> Inl e
      | Inr (out, emitted) \<Rightarrow>
          Inr (join nl (out @ concat (map (\<lambda>(guid, el). emit_element ex el) (leftovers ex emitted))
                        @ [''''])))"

text \<open>
  \<open>render_connectors\<close>. The relation, the label and the line of one connector are the
  local variables \<open>rel\<close> and \<open>label\<close> and the appended string; a connector whose source
  or target is not a key of \<open>elements\<close> is skipped.
\<close>

definition connector_rel :: "exporter \<Rightarrow> connector \<Rightarrow> string" where
  "connector_rel ex c =
     (case relation_for_type (cn_type c) of (style, head) \<Rightarrow>
        let rel = (if head = ''|>'' then style @ head
                   else if head = ''->'' then style @ ''->''
                   else if contains (cn_direction c) ''Source'' \<or>
                           contains (cn_direction c) ''Bi-Directional''
                        then style @ head
                        else style @ ''-'')
        in if include_colors ex \<and> truthy (cn_line_hex c)
           then (if startswith rel ''--'' then ''-['' @ the (cn_line_hex c) @ '']-'' @ drop 2 rel
                 else if startswith rel ''..'' then ''.['' @ the (cn_line_hex c) @ ''].'' @ drop 2 rel
                 else if startswith rel ''*-'' then ''*['' @ the (cn_line_hex c) @ '']-'' @ drop 2 rel
                 else if startswith rel ''o-'' then ''o['' @ the (cn_line_hex c) @ '']-'' @ drop 2 rel
                 else if startswith rel ''-'' then ''-['' @ the (cn_line_hex c) @ '']'' @ drop 1 rel
                 else rel)
           else rel)"

definition connector_label :: "exporter \<Rightarrow> connector \<Rightarrow> string" where
  "connector_label ex c =
     (let parts = [];
          parts = (if edge_labels ex \<in> set [''name'', ''both''] \<and> \<not> cn_hidden_labels c \<and>
                      cn_name c \<noteq> []
                   then parts @ [cn_name c] else parts);
          parts = (if edge_labels ex \<in> set [''stereotype'', ''both''] \<and> cn_stereotype c \<noteq> []
                   then parts @ [''<<'' @ cn_stereotype c @ ''>>''] else parts)
      in if parts \<noteq> [] then '' : '' @ join '' '' parts else '''')"

definition connector_line :: "exporter \<Rightarrow> connector \<Rightarrow> string option" where
  "connector_line ex c =
     (case (dict_get (elements ex) (cn_source_uid c), dict_get (elements ex) (cn_target_uid c)) of
        (Some src_el, Some dst_el) \<Rightarrow>
          Some (ref_token ex src_el @ '' '' @ connector_rel ex c @ '' '' @ ref_token ex dst_el
                @ connector_label ex c)
      | _ \<Rightarrow> None)"

definition render_connectors :: "exporter \<Rightarrow> string" where
  "render_connectors ex =
     join nl (List.map_filter (\<lambda>(cid, c). connector_line ex c) (connectors ex) @ [''''])"

text \<open>\<open>is_sequence_diagram\<close> and \<open>render_sequence\<close>.\<close>

definition is_sequence_diagram :: "diagram \<Rightarrow> bool" where
  "is_sequence_diagram diagram = (lower (dg_type diagram) = ''sequence'')"

definition participant_line :: "exporter \<Rightarrow> element \<Rightarrow> string" where
  "participant_line ex el =
     (let et = lower (el_type el);
          name = puml_escape_inline (el_name el);
          ref = ref_token ex el
      in if et = ''actor''
         then (if alias_mode ex = ''name'' then ''actor '' @ [dq] @ name @ [dq]
               else ''actor '' @ [dq] @ name @ [dq] @ '' as '' @ ref)
         else (if alias_mode ex = ''name'' then ''participant '' @ [dq] @ name @ [dq]
               else ''participant '' @ [dq] @ name @ [dq] @ '' as '' @ ref))"

definition message_line :: "exporter \<Rightarrow> connector \<Rightarrow> string option" where
  "message_line ex c =
     (case (dict_get (elements ex) (cn_source_uid c), dict_get (elements ex) (cn_target_uid c)) of
        (Some src_el, Some dst_el) \<Rightarrow>
          if lower (cn_type c) \<in> set [''message'', ''sequence'']
          then
            let parts = [];
                parts = (if edge_labels ex \<in> set [''name'', ''both''] \<and> cn_name c \<noteq> []
                         then parts @ [cn_name c] else parts);
                parts = (if edge_labels ex \<in> set [''stereotype'', ''both''] \<and> cn_stereotype c \<noteq> []
                         then parts @ [''<<'' @ cn_stereotype c @ ''>>''] else parts);
                label = (if parts \<noteq> [] then '' : '' @ join '' '' parts else '''')
            in Some (ref_token ex src_el @ '' -> '' @ ref_token ex dst_el @ label)
          else None
      | _ \<Rightarrow> None)"

definition render_sequence :: "exporter \<Rightarrow> string" where
  "render_sequence ex =
     join nl (map (\<lambda>(guid, el). participant_line ex el) (elements ex) @ ['''']
              @ List.map_filter (\<lambda>(cid, c). message_line ex c) (connectors ex) @ [''''])"

text \<open>
  \<open>export\<close>. Connecting to the tool and reading the selection are outside the program:
  \<open>sel\<close> is what they deliver, an error when they raise, otherwise the selected item
  with its type code. The file system maps an output directory and a file name to the
  text of the file; the message printed at the end is not part of the state.
\<close>

type_synonym filesystem = "string \<times> string \<rightharpoonup> string"

definition is_filename_char :: "char \<Rightarrow> bool" where
  "is_filename_char c = (is_alnum c \<or> c = CHR ''.'' \<or> c = CHR ''_'' \<or> c = CHR ''-'')"

definition export_text :: "exporter \<Rightarrow> diagram \<Rightarrow> error + string" where
  "export_text ex diagram =
     (if is_sequence_diagram diagram
      then Inr (join nl [render_header ex diagram, render_sequence ex, render_footer])
      else (case render_elements_grouped ex of
              Inl e \<Rightarrow> Inl e
            | Inr grouped \<Rightarrow>
                Inr (join nl [render_header ex diagram, grouped, render_connectors ex,
                              render_footer])))"

definition export ::
  "exporter \<Rightarrow> error + int \<times> diagram \<Rightarrow> string \<Rightarrow> string option \<Rightarrow> filesystem
     \<Rightarrow> (error + string \<times> string) \<times> filesystem" where
  "export ex sel outdir filename fs =
     (case sel of
        Inl e \<Rightarrow> (Inl e, fs)
      | Inr (itemType, diagram) \<Rightarrow>
          if itemType \<noteq> 8
          then (Inl (RuntimeError ''Please select a Diagram in EA's Project Browser before running.''), fs)
          else (case gather ex diagram 0 0 of
                  Inl e \<Rightarrow> (Inl e, fs)
                | Inr ex1 \<Rightarrow>
                    (case export_text ex1 diagram of
                       Inl e \<Rightarrow> (Inl e, fs)
                     | Inr puml \<Rightarrow>
                         let base = sub_runs is_filename_char
                                      (if truthy filename then the filename
                                       else if dg_name diagram \<noteq> [] then dg_name diagram
                                       else ''diagram'')
                         in (Inr (outdir, base @ ''.puml''),
                             fs((outdir, base @ ''.puml'') \<mapsto> puml)))))"

section \<open>The package \<open>ea2puml\<close>: models, writer, registry, handlers, \<open>run\<close>\<close>

text \<open>The dataclasses of \<open>models.py\<close> and \<open>config.py\<close>.\<close>

record geometry =
  geo_left :: int
  geo_right :: int
  geo_top :: int
  geo_bottom :: int

record m_element =
  me_id :: int
  me_guid :: string
  me_name :: string
  me_type :: string
  me_stereotype :: "string option"
  me_color :: "string option"
  me_tags :: "(string \<times> string) list"
  me_geometry :: "geometry option"
  me_alias :: "string option"

record m_note =
  mn_id :: int
  mn_text :: string
  mn_geometry :: "geometry option"
  mn_tags :: "(string \<times> string) list"

record connector_end =
  ce_element_id :: int
  ce_role :: "string option"
  ce_label :: "string option"

record m_connector =
  mc_id :: int
  mc_type :: string
  mc_stereotype :: "string option"
  mc_color :: "string option"
  mc_source :: connector_end
  mc_target :: connector_end
  mc_labels :: "(string \<times> string) list"
  mc_geometry :: "geometry option"

record m_diagram =
  md_id :: int
  md_name :: string
  md_type :: string
  md_elements :: "m_element list"
  md_connectors :: "m_connector list"
  md_notes :: "m_note list"
  md_packages :: "(int \<times> int list) list"
  md_direction :: "string option"

record config =
  cfg_outdir :: string
  cfg_filename :: "string option"
  cfg_include_tags :: "string list"
  cfg_no_colors :: bool
  cfg_element_stereo :: "string option"
  cfg_edge_labels :: "string option"
  cfg_direction :: "string option"
  cfg_explore :: bool
  cfg_skin :: "string option"
  cfg_autolayout :: "string option"
  cfg_alias_mode :: "string option"
  cfg_interface_style :: "string option"
  cfg_raw_args :: "string list"

text \<open>\<open>PlantUMLWriter\<close> (\<open>renderer.py\<close>); its methods carry the prefix \<open>writer_\<close>.\<close>

record writer =
  w_buf :: "string list"
  w_skin :: "string option"
  w_autolayout :: "string option"
  w_started :: bool
  w_ended :: bool

definition new_writer :: "string option \<Rightarrow> string option \<Rightarrow> writer" where
  "new_writer skin0 autolayout0 =
     \<lparr>w_buf = [], w_skin = skin0, w_autolayout = autolayout0, w_started = False,
      w_ended = False\<rparr>"

definition writer_start :: "writer \<Rightarrow> string \<Rightarrow> writer" where
  "writer_start out title =
     (if w_started out then out
      else
        let buf = w_buf out @ [''@startuml''];
            buf = (if truthy (w_skin out) then buf @ [the (w_skin out)] else buf);
            buf = (if truthy (w_autolayout out) then buf @ [the (w_autolayout out)] else buf);
            buf = (if title \<noteq> [] then buf @ [''title '' @ [dq] @ puml_escape_inline title @ [dq]]
                   else buf)
        in out\<lparr>w_started := True, w_buf := buf\<rparr>)"

definition writer_writeln :: "writer \<Rightarrow> string \<Rightarrow> writer" where
  "writer_writeln out line = out\<lparr>w_buf := w_buf out @ [line]\<rparr>"

definition writer_end :: "writer \<Rightarrow> writer" where
  "writer_end out =
     (if w_ended out then out else out\<lparr>w_ended := True, w_buf := w_buf out @ [''@enduml'']\<rparr>)"

text \<open>Whether a line of the buffer ends with a line feed (\<open>endswith\<close>).\<close>

definition ends_with_newline :: "string \<Rightarrow> bool" where
  "ends_with_newline s = (s \<noteq> [] \<and> last s = CHR 0x0A)"

definition writer_text :: "writer \<Rightarrow> string" where
  "writer_text out =
     join nl (w_buf out)
     @ (if w_buf out \<noteq> [] \<and> \<not> ends_with_newline (last (w_buf out)) then nl else '''')"

definition writer_save :: "writer \<Rightarrow> string \<Rightarrow> string \<Rightarrow> filesystem \<Rightarrow> (string \<times> string) \<times> filesystem" where
  "writer_save out outdir filename fs =
     ((outdir, filename @ ''.puml''), fs((outdir, filename @ ''.puml'') \<mapsto> writer_text out))"

text \<open>
  The registry (\<open>handler_registry.py\<close>). \<open>repr_str\<close> is \<open>repr\<close> of a \<open>str\<close> on code points
  below 256, used by the message of the \<open>KeyError\<close>.
\<close>

datatype handler = ComponentDiagramHandler | SequenceDiagramHandler | UseCaseDiagramHandler

definition repr_char :: "char \<Rightarrow> char \<Rightarrow> string" where
  "repr_char quote c =
     (let n = (of_char c :: nat)
      in if c = CHR 0x5C then [CHR 0x5C, CHR 0x5C]
         else if c = quote then [CHR 0x5C, quote]
         else if n = 9 then [CHR 0x5C, CHR ''t'']
         else if n = 10 then [CHR 0x5C, CHR ''n'']
         else if n = 13 then [CHR 0x5C, CHR ''r'']
         else if n < 32 \<or> (127 \<le> n \<and> n \<le> 160) \<or> n = 173
         then [CHR 0x5C, CHR ''x'', hex_digit (n div 16), hex_digit (n mod 16)]
         else [c])"

definition repr_str :: "string \<Rightarrow> string" where
  "repr_str s =
     (let quote = (if CHR 0x27 \<in> set s \<and> dq \<notin> set s then dq else CHR 0x27)
      in [quote] @ concat (map (repr_char quote) s) @ [quote])"

definition register :: "(string \<times> handler) list \<Rightarrow> string \<Rightarrow> handler \<Rightarrow> (string \<times> handler) list" where
  "register reg ea_diagram_type cls = dict_set reg (lower (strip ea_diagram_type)) cls"

text \<open>
  The module-level \<open>_REGISTRY\<close> once \<open>main.py\<close> has imported the three handler modules.
\<close>

definition REGISTRY :: "(string \<times> handler) list" where
  "REGISTRY =
     register (register (register [] ''Component'' ComponentDiagramHandler)
                 ''Sequence'' SequenceDiagramHandler)
       ''Use Case'' UseCaseDiagramHandler"

definition resolve :: "(string \<times> handler) list \<Rightarrow> string \<Rightarrow> error + handler" where
  "resolve reg diagram_type =
     (let key = lower (strip diagram_type)
      in case dict_get reg key of
           Some cls \<Rightarrow> Inr cls
         | None \<Rightarrow> Inl (KeyError (''No handler registered for diagram type: ''
                                   @ repr_str diagram_type)))"

text \<open>The helpers \<open>_index\<close> and \<open>_ref\<close>, the same in the three handler modules.\<close>

definition index_elements :: "m_diagram \<Rightarrow> (int \<times> m_element) list" where
  "index_elements diagram = fold (\<lambda>e idx. dict_set idx (me_id e) e) (md_elements diagram) []"

definition ref :: "m_element \<Rightarrow> string option \<Rightarrow> string" where
  "ref el alias_mode0 =
     (if alias_mode0 = Some ''name'' then [dq] @ puml_escape_inline (me_name el) @ [dq]
      else if truthy (me_alias el) then the (me_alias el)
      else [dq] @ puml_escape_inline (me_name el) @ [dq])"

text \<open>\<open>ComponentDiagramHandler.render\<close>, loop by loop.\<close>

definition component_element_line :: "config \<Rightarrow> m_element \<Rightarrow> string" where
  "component_element_line cfg el =
     (let stereo = (if truthy (me_stereotype el) \<and> truthy (cfg_element_stereo cfg)
                    then '' <<'' @ the (me_stereotype el) @ ''>>'' else '''');
          color = '''';
          alias = (if truthy (me_alias el) \<and> cfg_alias_mode cfg \<noteq> Some ''name''
                   then '' as '' @ the (me_alias el) else '''')
      in ''component '' @ [dq] @ puml_escape_inline (me_name el) @ [dq] @ stereo @ alias @ color)"

definition component_label :: "config \<Rightarrow> m_connector \<Rightarrow> string" where
  "component_label cfg c =
     (let parts = [];
          parts = (if cfg_edge_labels cfg \<in> set [Some ''name'', Some ''both'']
                   then (let nm = dict_get (mc_labels c) ''name''
                         in if truthy nm then parts @ [the nm] else parts)
                   else parts);
          parts = (if cfg_edge_labels cfg \<in> set [Some ''stereotype'', Some ''both''] \<and>
                      truthy (mc_stereotype c)
                   then parts @ [''<<'' @ the (mc_stereotype c) @ ''>>''] else parts)
      in if parts \<noteq> [] then '' : '' @ join '' / '' parts else '''')"

definition component_connector_line :: "config \<Rightarrow> (int \<times> m_element) list \<Rightarrow> m_connector \<Rightarrow> string option" where
  "component_connector_line cfg idx c =
     (case (dict_get idx (ce_element_id (mc_source c)), dict_get idx (ce_element_id (mc_target c))) of
        (Some src_el, Some dst_el) \<Rightarrow>
          Some (ref src_el (cfg_alias_mode cfg) @ '' --> '' @ ref dst_el (cfg_alias_mode cfg)
                @ component_label cfg c)
      | _ \<Rightarrow> None)"

definition note_line :: "m_note \<Rightarrow> string" where
  "note_line n = ''note '' @ [dq] @ mn_text n @ [dq] @ '' as N'' @ str_int (mn_id n)"

definition component_render :: "m_diagram \<Rightarrow> writer \<Rightarrow> config \<Rightarrow> writer" where
  "component_render diagram out cfg =
     (let out = (if truthy (cfg_direction cfg) then writer_writeln out (the (cfg_direction cfg))
                 else out);
          out = fold (\<lambda>el w. writer_writeln w (component_element_line cfg el))
                  (md_elements diagram) out;
          idx = index_elements diagram;
          out = fold (\<lambda>c w. case component_connector_line cfg idx c of
                                None \<Rightarrow> w | Some line \<Rightarrow> writer_writeln w line)
                  (md_connectors diagram) out
      in fold (\<lambda>n w. writer_writeln w (note_line n)) (md_notes diagram) out)"

text \<open>\<open>SequenceDiagramHandler.render\<close>.\<close>

definition is_actor :: "m_element \<Rightarrow> bool" where
  "is_actor el =
     (lower (case me_stereotype el of None \<Rightarrow> '''' | Some st \<Rightarrow> st) = ''actor'' \<or>
      lower (me_type el) = ''actor'')"

definition sequence_participant_line :: "config \<Rightarrow> m_element \<Rightarrow> string" where
  "sequence_participant_line cfg el =
     (let name = puml_escape_inline (me_name el);
          alias = (case me_alias el of None \<Rightarrow> ''None'' | Some a \<Rightarrow> a)
      in if is_actor el
         then (if cfg_alias_mode cfg = Some ''name'' then ''actor '' @ [dq] @ name @ [dq]
               else ''actor '' @ [dq] @ name @ [dq] @ '' as '' @ alias)
         else (if cfg_alias_mode cfg = Some ''name'' then ''participant '' @ [dq] @ name @ [dq]
               else ''participant '' @ [dq] @ name @ [dq] @ '' as '' @ alias))"

definition simple_connector_line ::
  "string \<Rightarrow> config \<Rightarrow> (int \<times> m_element) list \<Rightarrow> m_connector \<Rightarrow> string option" where
  "simple_connector_line arrow cfg idx c =
     (case (dict_get idx (ce_element_id (mc_source c)), dict_get idx (ce_element_id (mc_target c))) of
        (Some src_el, Some dst_el) \<Rightarrow>
          let label = (case dict_get (mc_labels c) ''name'' of None \<Rightarrow> '''' | Some l \<Rightarrow> l)
          in Some (ref src_el (cfg_alias_mode cfg) @ arrow @ ref dst_el (cfg_alias_mode cfg)
                   @ (if label \<noteq> [] then '' : '' @ label else ''''))
      | _ \<Rightarrow> None)"

definition sequence_render :: "m_diagram \<Rightarrow> writer \<Rightarrow> config \<Rightarrow> writer" where
  "sequence_render diagram out cfg =
     (let idx = index_elements diagram;
          out = fold (\<lambda>el w. writer_writeln w (sequence_participant_line cfg el))
                  (md_elements diagram) out;
          out = writer_writeln out '''';
          out = fold (\<lambda>c w. case simple_connector_line '' -> '' cfg idx c of
                                None \<Rightarrow> w | Some line \<Rightarrow> writer_writeln w line)
                  (md_connectors diagram) out
      in writer_writeln out '''')"

text \<open>\<open>UseCaseDiagramHandler.render\<close>.\<close>

definition usecase_element_line :: "config \<Rightarrow> m_element \<Rightarrow> string" where
  "usecase_element_line cfg el =
     (let alias = (if truthy (me_alias el) \<and> cfg_alias_mode cfg \<noteq> Some ''name''
                   then '' as '' @ the (me_alias el) else '''')
      in if is_actor el then ''actor '' @ [dq] @ puml_escape_inline (me_name el) @ [dq] @ alias
         else ''usecase '' @ [dq] @ puml_escape_inline (me_name el) @ [dq] @ alias)"

definition usecase_render :: "m_diagram \<Rightarrow> writer \<Rightarrow> config \<Rightarrow> writer" where
  "usecase_render diagram out cfg =
     (let out = fold (\<lambda>el w. writer_writeln w (usecase_element_line cfg el))
                  (md_elements diagram) out;
          idx = index_elements diagram
      in fold (\<lambda>c w. case simple_connector_line '' --> '' cfg idx c of
                           None \<Rightarrow> w | Some line \<Rightarrow> writer_writeln w line)
           (md_connectors diagram) out)"

definition handler_render :: "handler \<Rightarrow> m_diagram \<Rightarrow> writer \<Rightarrow> config \<Rightarrow> writer" where
  "handler_render h diagram out cfg =
     (case h of
        ComponentDiagramHandler \<Rightarrow> component_render diagram out cfg
      | SequenceDiagramHandler \<Rightarrow> sequence_render diagram out cfg
      | UseCaseDiagramHandler \<Rightarrow> usecase_render diagram out cfg)"

text \<open>
  \<open>run\<close> (\<open>main.py\<close>). The adapter reads the tool: \<open>selected\<close> is what
  \<open>get_selected_diagram\<close> delivers, an error when it raises. \<open>reg\<close> is the registry at the
  time of the call.
\<close>

definition sanitize_filename :: "string \<Rightarrow> string" where
  "sanitize_filename name =
     (let name = strip name;
          name = sub_runs is_filename_char name
      in if name \<noteq> [] then name else ''diagram'')"

definition run ::
  "(string \<times> handler) list \<Rightarrow> config \<Rightarrow> error + m_diagram \<Rightarrow> filesystem
     \<Rightarrow> (error + string \<times> string) \<times> filesystem" where
  "run reg cfg selected fs =
     (case selected of
        Inl e \<Rightarrow> (Inl e, fs)
      | Inr diagram \<Rightarrow>
          let diagram = (if truthy (cfg_direction cfg)
                         then diagram\<lparr>md_direction := cfg_direction cfg\<rparr> else diagram)
          in case resolve reg (md_type diagram) of
               Inl e \<Rightarrow> (Inl e, fs)
             | Inr Handler \<Rightarrow>
                 let out = new_writer (cfg_skin cfg) (cfg_autolayout cfg);
                     out = writer_start out (md_name diagram);
                     out = handler_render Handler diagram out cfg;
                     out = writer_end out;
                     fname = (if truthy (cfg_filename cfg) then the (cfg_filename cfg)
                              else sanitize_filename (md_name diagram))
                 in case writer_save out (cfg_outdir cfg) fname fs of
                      (path, fs') \<Rightarrow> (Inr path, fs'))"

section \<open>Concrete inputs\<close>

text \<open>The exporter with the default values of the parameters of \<open>__init__\<close>.\<close>

definition default_exporter :: exporter where
  "default_exporter =
     new_exporter False True ''off'' ''both'' None False False False ''human'' ''lollipop''"

definition example_runtime :: runtime where
  "example_runtime = \<lparr>urandom4 = [], hash_bytes = (\<lambda>b. 0), hash_str = (\<lambda>s. 0)\<rparr>"

text \<open>
  A placed object without colour, stereotype, notes or tagged values: element id,
  instance GUID, name, type, and the edges \<open>Left\<close>, \<open>Right\<close>, \<open>Top\<close>, \<open>Bottom\<close> in the
  tool's convention (Y grows upwards, so \<open>Top\<close> and \<open>Bottom\<close> are not positive).
\<close>

definition example_shape ::
  "int \<Rightarrow> string \<Rightarrow> string \<Rightarrow> string \<Rightarrow> int \<Rightarrow> int \<Rightarrow> int \<Rightarrow> int \<Rightarrow> placed" where
  "example_shape eid guid name ty l r t b =
     Placed \<lparr>do_element_id = eid, do_instance_guid = guid, do_left = l, do_right = r,
              do_top = t, do_bottom = b, do_background_color = - 1, do_show_tags = False\<rparr>
            \<lparr>e_name = name, e_type = ty, e_stereotype = [], e_notes = [],
              e_tagged_values = Some []\<rparr>
            example_runtime None"

text \<open>
  Two overlapping packages, listed bottom one first, and a class that lies in the
  intersection of the two.
\<close>

definition overlapping_packages :: diagram where
  "overlapping_packages =
     Diagram ''D'' ''Logical''
       [example_shape 2 ''p2'' ''P2'' ''Package'' 50 150 (- 50) (- 150),
        example_shape 1 ''p1'' ''P1'' ''Package'' 0 100 0 (- 100),
        example_shape 3 ''s'' ''S'' ''Class'' 60 80 (- 60) (- 80)]
       []"

text \<open>
  The state after the first loop of \<open>gather\<close> on the objects of a diagram, starting from
  the default exporter.
\<close>

definition gathered :: "diagram \<Rightarrow> exporter" where
  "gathered d =
     (case gather_objects default_exporter (dg_objects d) 0 0 of
        Inr ex \<Rightarrow> ex | Inl e \<Rightarrow> default_exporter)"


text \<open>
  Two components and one link between them, named \<open>uses\<close> with stereotype \<open>call\<close>; the
  argument is the link's \<open>HiddenLabels\<close> flag.
\<close>

definition example_link :: "bool \<Rightarrow> int \<Rightarrow> int \<Rightarrow> diagram_link \<times> ea_connector" where
  "example_link hidden client supplier =
     (\<lparr>dl_connector_id = 7, dl_is_hidden = False, dl_source_instance_uid = [],
       dl_target_instance_uid = [], dl_line_color = - 1, dl_line_width = 1,
       dl_hidden_labels = hidden\<rparr>,
      \<lparr>c_name = ''uses'', c_type = ''Association'', c_stereotype = ''call'',
       c_direction = ''Source -> Destination'', c_client_id = client,
       c_supplier_id = supplier\<rparr>)"

definition two_components :: "placed list" where
  "two_components =
     [example_shape 1 ''a'' ''A'' ''Component'' 0 10 0 (- 10),
      example_shape 2 ''b'' ''B'' ''Component'' 20 30 0 (- 10)]"

definition labelled_diagram :: "bool \<Rightarrow> diagram" where
  "labelled_diagram hidden = Diagram ''L'' ''Component'' two_components [example_link hidden 1 2]"

text \<open>A deployment diagram with one node; no handler is registered for this type.\<close>

definition deployment_diagram :: diagram where
  "deployment_diagram =
     Diagram ''D'' ''Deployment'' [example_shape 1 ''n'' ''N'' ''Node'' 0 10 0 (- 10)] []"

definition example_config :: config where
  "example_config =
     \<lparr>cfg_outdir = ''output'', cfg_filename = None, cfg_include_tags = [], cfg_no_colors = False,
      cfg_element_stereo = None, cfg_edge_labels = Some ''both'', cfg_direction = None,
      cfg_explore = False, cfg_skin = None, cfg_autolayout = None,
      cfg_alias_mode = Some ''human'', cfg_interface_style = None, cfg_raw_args = []\<rparr>"

definition example_m_diagram :: "string \<Rightarrow> m_diagram" where
  "example_m_diagram ty =
     \<lparr>md_id = 1, md_name = ''D'', md_type = ty,
      md_elements =
        [\<lparr>me_id = 1, me_guid = ''a'', me_name = ''A'', me_type = ''Component'', me_stereotype = None,
          me_color = None, me_tags = [], me_geometry = None, me_alias = Some ''A''\<rparr>,
         \<lparr>me_id = 2, me_guid = ''b'', me_name = ''B'', me_type = ''Component'', me_stereotype = None,
          me_color = None, me_tags = [], me_geometry = None, me_alias = Some ''B''\<rparr>],
      md_connectors =
        [\<lparr>mc_id = 7, mc_type = ''Association'', mc_stereotype = Some ''call'', mc_color = None,
          mc_source = \<lparr>ce_element_id = 1, ce_role = None, ce_label = None\<rparr>,
          mc_target = \<lparr>ce_element_id = 2, ce_role = None, ce_label = None\<rparr>,
          mc_labels = [(''name'', ''uses'')], mc_geometry = None\<rparr>,
         \<lparr>mc_id = 8, mc_type = ''Association'', mc_stereotype = None, mc_color = None,
          mc_source = \<lparr>ce_element_id = 1, ce_role = None, ce_label = None\<rparr>,
          mc_target = \<lparr>ce_element_id = 99, ce_role = None, ce_label = None\<rparr>,
          mc_labels = [(''name'', ''dangling'')], mc_geometry = None\<rparr>],
      md_notes = [], md_packages = [], md_direction = None\<rparr>"

text \<open>
  Two runtimes that differ in the random bytes and in the string hash, the exporter in
  opaque alias mode, and a diagram with one class of a given GUID.
\<close>

definition runtime_a :: runtime where
  "runtime_a = \<lparr>urandom4 = [CHR 0x01, CHR 0x00, CHR 0x00, CHR 0x00],
                 hash_bytes = (\<lambda>b. of_char (hd b)), hash_str = (\<lambda>s. 1)\<rparr>"

definition runtime_b :: runtime where
  "runtime_b = \<lparr>urandom4 = [CHR 0x02, CHR 0x00, CHR 0x00, CHR 0x00],
                 hash_bytes = (\<lambda>b. of_char (hd b)), hash_str = (\<lambda>s. 2)\<rparr>"

definition uuid_exporter :: exporter where
  "uuid_exporter =
     new_exporter False True ''off'' ''both'' None False False False ''uuid'' ''lollipop''"

definition guid_diagram :: "runtime \<Rightarrow> string \<Rightarrow> diagram" where
  "guid_diagram rt guid =
     Diagram ''D'' ''Logical''
       [Placed \<lparr>do_element_id = 1, do_instance_guid = guid, do_left = 0, do_right = 10,
                do_top = 0, do_bottom = - 10, do_background_color = - 1, do_show_tags = False\<rparr>
              \<lparr>e_name = ''Foo'', e_type = ''Class'', e_stereotype = [], e_notes = [],
                e_tagged_values = Some []\<rparr>
              rt None]
       []"

text \<open>
  Notions used to state properties of \<open>gather\<close> and \<open>export\<close>. \<open>erase_rt\<close> is the diagram
  as model input: the runtime seen by each alias allocation is replaced by a fixed one,
  so two diagrams with the same \<open>erase_rt\<close> are one model input seen in two runs.
  \<open>stable_guids\<close> holds when every placed object has a GUID that keeps an alphanumeric
  character. \<open>keyed\<close> holds when the dicts \<open>elements\<close> and \<open>packages\<close> have no repeated
  key and every package is stored under its own GUID.
\<close>

primrec erase_rt :: "diagram \<Rightarrow> diagram" and erase_rt_placed :: "placed \<Rightarrow> placed" where
  "erase_rt (Diagram nm ty objs links) = Diagram nm ty (map erase_rt_placed objs) links"
| "erase_rt_placed (Placed dObj dElem rt sub) =
     Placed dObj dElem example_runtime (map_option erase_rt sub)"

fun stable_guids :: "diagram \<Rightarrow> bool" and stable_guids_placed :: "placed \<Rightarrow> bool" where
  "stable_guids (Diagram nm ty objs links) = list_all stable_guids_placed objs"
| "stable_guids_placed (Placed dObj dElem rt sub) =
     (sub_nonalnum_empty (do_instance_guid dObj) \<noteq> [] \<and>
      (case sub of None \<Rightarrow> True | Some d \<Rightarrow> stable_guids d))"

definition keyed :: "exporter \<Rightarrow> bool" where
  "keyed ex =
     (distinct (map fst (elements ex)) \<and> distinct (map fst (packages ex)) \<and>
      (\<forall>(k, p) \<in> set (packages ex). pk_guid p = k))"

text \<open>Notions used to state properties of the allocator.\<close>

definition counts_get :: "alias_factory \<Rightarrow> string \<Rightarrow> int" where
  "counts_get af b = (case counts af b of None \<Rightarrow> 0 | Some k \<Rightarrow> k)"

definition counts_ok :: "alias_factory \<Rightarrow> bool" where
  "counts_ok af = (\<forall>b k. counts af b = Some k \<longrightarrow> 1 \<le> k)"

text \<open>How many of the calls before call \<open>i\<close> have the same base slug as call \<open>i\<close>.\<close>

definition earlier_same_base :: "(runtime \<times> string \<times> string) list \<Rightarrow> nat \<Rightarrow> nat" where
  "earlier_same_base calls i =
     length (filter (\<lambda>c. slugify_name (snd (snd c)) = slugify_name (snd (snd (calls ! i))))
               (take i calls))"

section \<open>Centroid containment\<close>

lemma sdiv_two_nonneg: "0 \<le> k \<Longrightarrow> k sdiv 2 = k div (2::int)"
  by (simp add: signed_divide_int_def sgn_if)

text \<open>
  C9. For rectangles of non-negative width and height, \<open>center_inside inner outer\<close> holds
  exactly when the centroid \<open>(x + w/2, y + h/2)\<close> of \<open>inner\<close>, with the halves taken by
  truncating division (\<open>sdiv\<close>), lies within the closed bounds of \<open>outer\<close>.
\<close>

theorem center_inside_closed_bounds:
  assumes "0 \<le> rw inner" and "0 \<le> rh inner"
  shows "center_inside inner outer \<longleftrightarrow>
           (rx outer \<le> rx inner + rw inner sdiv 2 \<and>
            rx inner + rw inner sdiv 2 \<le> rx outer + rw outer \<and>
            ry outer \<le> ry inner + rh inner sdiv 2 \<and>
            ry inner + rh inner sdiv 2 \<le> ry outer + rh outer)"
  using assms by (auto simp: center_inside_def center_def sdiv_two_nonneg)

theorem center_inside_closed_bounds_witness:
  "(0::int) \<le> 5 \<and> (0::int) \<le> 3 \<and>
   center_inside \<lparr>rx = 8, ry = 9, rw = 5, rh = 3\<rparr> \<lparr>rx = 0, ry = 0, rw = 10, rh = 10\<rparr> \<and>
   \<not> center_inside \<lparr>rx = 9, ry = 9, rw = 5, rh = 3\<rparr> \<lparr>rx = 0, ry = 0, rw = 10, rh = 10\<rparr>"
  using center_inside_closed_bounds
          [of "\<lparr>rx = 8, ry = 9, rw = 5, rh = 3\<rparr>" "\<lparr>rx = 0, ry = 0, rw = 10, rh = 10\<rparr>"]
        center_inside_closed_bounds
          [of "\<lparr>rx = 9, ry = 9, rw = 5, rh = 3\<rparr>" "\<lparr>rx = 0, ry = 0, rw = 10, rh = 10\<rparr>"]
  by (simp add: signed_divide_int_def)

section \<open>Readable aliases\<close>

lemma slugify_name_nonempty: "slugify_name name \<noteq> []"
  by (auto simp: slugify_name_def Let_def)

lemma make_human:
  assumes "mode af = ''human''"
  shows "make_alias rt af guid name =
           (if counts_get af (slugify_name name) = 0 then slugify_name name
            else slugify_name name @ ''_'' @ str_int (counts_get af (slugify_name name) + 1),
            af\<lparr>counts := (counts af)(slugify_name name \<mapsto> counts_get af (slugify_name name) + 1)\<rparr>)"
  using assms by (simp add: make_alias_def Let_def counts_get_def slugify_name_nonempty)

lemma counts_okD: "counts_ok af \<Longrightarrow> counts af b = Some k \<Longrightarrow> 1 \<le> k"
  unfolding counts_ok_def by blast

lemma counts_get_nonneg: "counts_ok af \<Longrightarrow> 0 \<le> counts_get af b"
  by (cases "counts af b") (auto simp: counts_get_def dest: counts_okD)

lemma make_human_state:
  assumes "mode af = ''human''" and "counts_ok af" and "make_alias rt af guid name = (a, af')"
  shows "mode af' = ''human'' \<and> counts_ok af' \<and>
         (\<forall>b. counts_get af' b = counts_get af b + (if b = slugify_name name then 1 else 0))"
proof -
  let ?b = "slugify_name name"
  have af': "af' = af\<lparr>counts := (counts af)(?b \<mapsto> counts_get af ?b + 1)\<rparr>"
    using assms(1,3) by (simp add: make_human)
  have "counts_ok af'"
    unfolding counts_ok_def
  proof (intro allI impI)
    fix b k assume "counts af' b = Some k"
    then show "1 \<le> k"
      using counts_get_nonneg [OF assms(2), of ?b] counts_okD [OF assms(2), of b k]
      by (auto simp: af' split: if_splits)
  qed
  moreover have "\<forall>b. counts_get af' b = counts_get af b + (if b = ?b then 1 else 0)"
    by (simp add: af' counts_get_def)
  moreover have "mode af' = ''human''"
    using assms(1) by (simp add: af')
  ultimately show ?thesis by simp
qed

lemma make_seq_human_nth:
  assumes "mode af = ''human''" and "counts_ok af" and "i < length calls"
  shows "fst (make_seq af calls) ! i =
    (let base = slugify_name (snd (snd (calls ! i)));
         k = counts_get af base + int (earlier_same_base calls i)
     in if k = 0 then base else base @ ''_'' @ str_int (k + 1))"
  using assms
proof (induction calls arbitrary: af i)
  case Nil
  then show ?case by simp
next
  case (Cons c calls)
  obtain rt guid name where c: "c = (rt, guid, name)" by (cases c) auto
  obtain a af' where mk: "make_alias rt af guid name = (a, af')" by (cases "make_alias rt af guid name") auto
  obtain as af'' where ms: "make_seq af' calls = (as, af'')" by (cases "make_seq af' calls") auto
  note st = make_human_state [OF Cons.prems(1) Cons.prems(2) mk]
  show ?case
  proof (cases i)
    case 0
    with mk ms c Cons.prems(1) show ?thesis
      by (simp add: make_human earlier_same_base_def Let_def)
  next
    case (Suc j)
    with Cons.prems have j: "j < length calls" by simp
    have ih: "fst (make_seq af' calls) ! j =
      (let base = slugify_name (snd (snd (calls ! j)));
           k = counts_get af' base + int (earlier_same_base calls j)
       in if k = 0 then base else base @ ''_'' @ str_int (k + 1))"
      using Cons.IH [of af' j] st j by simp
    have cnt: "counts_get af' (slugify_name (snd (snd (calls ! j)))) + int (earlier_same_base calls j)
             = counts_get af (slugify_name (snd (snd ((c # calls) ! i)))) + int (earlier_same_base (c # calls) i)"
      using st Suc c by (auto simp: earlier_same_base_def)
    show ?thesis
      using ih cnt mk ms c Suc by (simp add: Let_def)
  qed
qed

text \<open>
  C6. In readable (human) mode, on a fresh factory, the allocation that has \<open>k\<close> earlier
  allocations of the same base slug returns the bare slug when \<open>k = 0\<close> and the slug
  followed by \<open>_\<close> and \<open>k + 1\<close> otherwise: the second occurrence gets \<open>_2\<close>, the third
  \<open>_3\<close>, and so on.
\<close>

theorem human_alias_kth_suffix:
  assumes "i < length calls"
  shows "fst (make_seq (new_alias_factory ''human'') calls) ! i =
           (if earlier_same_base calls i = 0 then slugify_name (snd (snd (calls ! i)))
            else slugify_name (snd (snd (calls ! i))) @ ''_'' @
                 str_int (int (earlier_same_base calls i) + 1))"
proof -
  have "mode (new_alias_factory ''human'') = ''human''"
    and "counts_ok (new_alias_factory ''human'')"
    and "\<And>b. counts_get (new_alias_factory ''human'') b = 0"
    by (simp_all add: new_alias_factory_def counts_ok_def counts_get_def)
  with make_seq_human_nth [of "new_alias_factory ''human''" i calls] assms
  show ?thesis by (simp add: Let_def)
qed

lemma slugify_Foo: "slugify_name ''Foo'' = ''Foo''"
  by (simp add: slugify_name_def sub_nonword_underscore_def strip_def py_isspace_def
        is_word_def is_alnum_def is_upper_def is_lower_def is_digit_def)

lemma str_int_2: "str_int 2 = ''2''"
  by code_simp

theorem human_alias_kth_suffix_witness:
  "(1::nat) < length [(\<lparr>urandom4 = [], hash_bytes = (\<lambda>b. 0), hash_str = (\<lambda>s. 0)\<rparr>, ''g1'', ''Foo''),
                      (\<lparr>urandom4 = [], hash_bytes = (\<lambda>b. 0), hash_str = (\<lambda>s. 0)\<rparr>, ''g2'', ''Foo'')] \<and>
   fst (make_seq (new_alias_factory ''human'')
          [(\<lparr>urandom4 = [], hash_bytes = (\<lambda>b. 0), hash_str = (\<lambda>s. 0)\<rparr>, ''g1'', ''Foo''),
           (\<lparr>urandom4 = [], hash_bytes = (\<lambda>b. 0), hash_str = (\<lambda>s. 0)\<rparr>, ''g2'', ''Foo'')]) ! 0 = ''Foo'' \<and>
   fst (make_seq (new_alias_factory ''human'')
          [(\<lparr>urandom4 = [], hash_bytes = (\<lambda>b. 0), hash_str = (\<lambda>s. 0)\<rparr>, ''g1'', ''Foo''),
           (\<lparr>urandom4 = [], hash_bytes = (\<lambda>b. 0), hash_str = (\<lambda>s. 0)\<rparr>, ''g2'', ''Foo'')]) ! 1 = ''Foo_2''"
  using human_alias_kth_suffix
          [of 0 "[(\<lparr>urandom4 = [], hash_bytes = (\<lambda>b. 0), hash_str = (\<lambda>s. 0)\<rparr>, ''g1'', ''Foo''),
                  (\<lparr>urandom4 = [], hash_bytes = (\<lambda>b. 0), hash_str = (\<lambda>s. 0)\<rparr>, ''g2'', ''Foo'')]"]
        human_alias_kth_suffix
          [of 1 "[(\<lparr>urandom4 = [], hash_bytes = (\<lambda>b. 0), hash_str = (\<lambda>s. 0)\<rparr>, ''g1'', ''Foo''),
                  (\<lparr>urandom4 = [], hash_bytes = (\<lambda>b. 0), hash_str = (\<lambda>s. 0)\<rparr>, ''g2'', ''Foo'')]"]
  by (simp add: earlier_same_base_def slugify_Foo str_int_2)

text \<open>
  C5. The allocations for the display names \<open>Foo\<close>, \<open>Foo\<close>, \<open>Foo_2\<close> in readable mode:
  the second \<open>Foo\<close> is given \<open>Foo_2\<close>, and so is the shape whose own slug is \<open>Foo_2\<close>,
  whose counter is still at zero. The returned aliases are not pairwise distinct.
\<close>

theorem human_alias_collision:
  "fst (make_seq (new_alias_factory ''human'')
          [(\<lparr>urandom4 = [], hash_bytes = (\<lambda>b. 0), hash_str = (\<lambda>s. 0)\<rparr>, ''g1'', ''Foo''),
           (\<lparr>urandom4 = [], hash_bytes = (\<lambda>b. 0), hash_str = (\<lambda>s. 0)\<rparr>, ''g2'', ''Foo''),
           (\<lparr>urandom4 = [], hash_bytes = (\<lambda>b. 0), hash_str = (\<lambda>s. 0)\<rparr>, ''g3'', ''Foo_2'')])
     = [''Foo'', ''Foo_2'', ''Foo_2'']"
  by code_simp

section \<open>Dictionaries, membership and package blocks\<close>

lemma inside_iff:
  "inside erect preg \<longleftrightarrow>
     center_inside erect preg \<or> area erect \<le> 2 * overlap_area erect preg"
proof -
  have "real_of_int (area erect) \<le> real_of_int (2 * overlap_area erect preg)
        \<longleftrightarrow> area erect \<le> 2 * overlap_area erect preg"
    by (rule of_int_le_iff)
  moreover have "real_of_int (overlap_area erect preg) \<ge> 0.5 * real_of_int (area erect)
        \<longleftrightarrow> real_of_int (area erect) \<le> real_of_int (2 * overlap_area erect preg)"
    by auto
  ultimately show ?thesis by (simp only: inside_def Let_def)
qed


lemma keys_dict_set:
  "map fst (dict_set d k v) = (if k \<in> set (map fst d) then map fst d else map fst d @ [k])"
  by (induction d) (force simp: image_iff)+

lemma distinct_dict_set: "distinct (map fst d) \<Longrightarrow> distinct (map fst (dict_set d k v))"
  by (simp add: keys_dict_set)





lemma inside_half:
  "2 * overlap_area erect preg = area erect \<Longrightarrow> inside erect preg"
  by (simp add: inside_iff)

lemma member_lines_Inr:
  assumes "member_lines ex guids = Inr (ls, em)"
  shows "em = filter (\<lambda>g. \<exists>el. dict_get (elements ex) g = Some el \<and> el_type el \<noteq> ''Package'') guids
         \<and> ls = concat (map (\<lambda>g. emit_element ex (the (dict_get (elements ex) g))) em)"
  using assms
proof (induction guids arbitrary: ls em)
  case Nil
  then show ?case by simp
next
  case (Cons g guids)
  from Cons.prems obtain el where el: "dict_get (elements ex) g = Some el"
    by (auto split: option.splits)
  from Cons.prems el obtain ls' em' where rest: "member_lines ex guids = Inr (ls', em')"
    by (auto split: sum.splits)
  note ih = Cons.IH [OF rest]
  show ?case
  proof (cases "el_type el = ''Package''")
    case True
    with Cons.prems el rest have eq: "ls = ls'" "em = em'" by simp_all
    from ih True el show ?thesis unfolding eq by simp
  next
    case False
    with Cons.prems el rest have eq: "ls = emit_element ex el @ ls'" "em = g # em'"
      by simp_all
    from ih False el show ?thesis unfolding eq by simp
  qed
qed


lemma gather_members_fields [simp]:
  "elements (gather_members ex) = elements ex"
  "packages (gather_members ex) = packages ex"
  "elemid_to_instuid (gather_members ex) = elemid_to_instuid ex"
  by (simp_all add: gather_members_def)

lemma set_sorted_pkgs: "set (sorted_pkgs ex) = snd ` set (packages ex)"
  by (simp add: sorted_pkgs_def)



section \<open>The overlap threshold\<close>



section \<open>Overlapping containers\<close>




section \<open>Packages are only blocks\<close>

text \<open>
  C10. A package block consists of its header, the declarations of the GUIDs it emits and
  the closing lines, and every emitted GUID is the key of an element whose type is not
  \<open>Package\<close>; no leftover has type \<open>Package\<close>; the blocks are those of the entries of
  \<open>packages\<close>. So a shape of type \<open>Package\<close> is never declared inside a block nor among
  the leftovers, also when it is a candidate member of another container.
\<close>

theorem package_shapes_only_as_blocks:
  "(package_block ex pkg = Inr (ls, em) \<longrightarrow>
      ls = package_header pkg #
           concat (map (\<lambda>g. emit_element ex (the (dict_get (elements ex) g))) em) @ [''}'', ''''] \<and>
      (\<forall>g \<in> set em. \<exists>el. dict_get (elements ex) g = Some el \<and> el_type el \<noteq> ''Package'')) \<and>
   (\<forall>(g, el) \<in> set (leftovers ex emitted). el_type el \<noteq> ''Package'') \<and>
   set (sorted_pkgs ex) = snd ` set (packages ex)"
proof (intro conjI impI)
  assume pb: "package_block ex pkg = Inr (ls, em)"
  then obtain ls' where ml: "member_lines ex (case dict_get (members_in_pkg ex) (pk_guid pkg) of
                              None \<Rightarrow> [] | Some ms \<Rightarrow> ms) = Inr (ls', em)"
    and ls: "ls = package_header pkg # ls' @ [''}'', '''']"
    by (auto simp: package_block_def split: sum.splits)
  from member_lines_Inr [OF ml] ls
  show "ls = package_header pkg #
           concat (map (\<lambda>g. emit_element ex (the (dict_get (elements ex) g))) em) @ [''}'', '''']"
    by simp
  from member_lines_Inr [OF ml]
  have "em = filter (\<lambda>g. \<exists>el. dict_get (elements ex) g = Some el \<and> el_type el \<noteq> ''Package'')
               (case dict_get (members_in_pkg ex) (pk_guid pkg) of None \<Rightarrow> [] | Some ms \<Rightarrow> ms)"
    by simp
  then have "set em \<subseteq> {g. \<exists>el. dict_get (elements ex) g = Some el \<and> el_type el \<noteq> ''Package''}"
    by auto
  then show "\<forall>g \<in> set em. \<exists>el. dict_get (elements ex) g = Some el \<and> el_type el \<noteq> ''Package''"
    by blast
next
  show "\<forall>(g, el) \<in> set (leftovers ex emitted). el_type el \<noteq> ''Package''"
    by (auto simp: leftovers_def)
next
  show "set (sorted_pkgs ex) = snd ` set (packages ex)"
    by (rule set_sorted_pkgs)
qed

theorem package_shapes_only_as_blocks_witness:
  "package_block (gather_members (gathered overlapping_packages))
     (the (dict_get (packages (gathered overlapping_packages)) ''p1'')) =
     Inr ([''package '' @ [dq] @ ''P1'' @ [dq] @ '' {'',
           ''class '' @ [dq] @ ''S'' @ [dq] @ '' as S'', ''}'', ''''], [''s'']) \<and>
   dict_get (members_in_pkg (gather_members (gathered overlapping_packages))) ''p1''
     = Some [''p2'', ''s''] \<and>
   el_type (the (dict_get (elements (gather_members (gathered overlapping_packages))) ''p2''))
     = ''Package'' \<and>
   el_type (the (dict_get (elements (gather_members (gathered overlapping_packages))) ''s''))
     \<noteq> ''Package''"
proof -
  let ?E = "gather_members (gathered overlapping_packages)"
  let ?P1 = "the (dict_get (packages (gathered overlapping_packages)) ''p1'')"
  let ?ls = "[''package '' @ [dq] @ ''P1'' @ [dq] @ '' {'',
              ''class '' @ [dq] @ ''S'' @ [dq] @ '' as S'', ''}'', '''']"
  have pb: "package_block ?E ?P1 = Inr (?ls, [''s''])" by code_simp
  have ms: "dict_get (members_in_pkg ?E) ''p1'' = Some [''p2'', ''s'']" by code_simp
  have tp: "el_type (the (dict_get (elements ?E) ''p2'')) = ''Package''" by code_simp
  from package_shapes_only_as_blocks [of ?E ?P1 ?ls "[''s'']"] pb
  have "\<forall>g \<in> set [''s'']. \<exists>el. dict_get (elements ?E) g = Some el \<and> el_type el \<noteq> ''Package''"
    by blast
  then have ts: "el_type (the (dict_get (elements ?E) ''s'')) \<noteq> ''Package''" by auto
  from pb ms tp ts show ?thesis by (intro conjI)
qed

section \<open>Connectors\<close>

lemma gather_link_fields [simp]:
  "elements (gather_link ex l) = elements ex"
  "elemid_to_instuid (gather_link ex l) = elemid_to_instuid ex"
  by (auto simp: gather_link_def Let_def split: prod.splits)

lemma gather_links_fields [simp]:
  "elements (gather_links ex ls) = elements ex"
  "elemid_to_instuid (gather_links ex ls) = elemid_to_instuid ex"
proof -
  have "elements (gather_links ex ls) = elements ex \<and>
        elemid_to_instuid (gather_links ex ls) = elemid_to_instuid ex"
    unfolding gather_links_def by (induction ls arbitrary: ex) simp_all
  then show "elements (gather_links ex ls) = elements ex"
    and "elemid_to_instuid (gather_links ex ls) = elemid_to_instuid ex" by simp_all
qed

lemma resolve_endpoint_uid_cong:
  assumes "elements ex' = elements ex" and "elemid_to_instuid ex' = elemid_to_instuid ex"
  shows "resolve_endpoint_uid ex' dLnk dConn which = resolve_endpoint_uid ex dLnk dConn which"
  using assms by (simp add: resolve_endpoint_uid_def Let_def)

lemma gather_link_dangling:
  assumes "resolve_endpoint_uid ex dLnk dConn ''source'' = None \<or>
           resolve_endpoint_uid ex dLnk dConn ''target'' = None"
  shows "gather_link ex (dLnk, dConn) = ex"
  using assms by (auto simp: gather_link_def Let_def truthy_def)

lemma gather_links_append:
  "gather_links ex (xs @ ys) = gather_links (gather_links ex xs) ys"
  by (simp add: gather_links_def)

lemma gather_links_dangling:
  assumes "resolve_endpoint_uid ex dLnk dConn ''source'' = None \<or>
           resolve_endpoint_uid ex dLnk dConn ''target'' = None"
  shows "gather_links ex (before @ (dLnk, dConn) # after) = gather_links ex (before @ after)"
proof -
  let ?ex = "gather_links ex before"
  have "resolve_endpoint_uid ?ex dLnk dConn ''source'' = None \<or>
        resolve_endpoint_uid ?ex dLnk dConn ''target'' = None"
    using assms resolve_endpoint_uid_cong [of ?ex ex dLnk dConn] by simp
  then have "gather_link ?ex (dLnk, dConn) = ?ex" by (rule gather_link_dangling)
  then have "gather_links ?ex ((dLnk, dConn) # after) = gather_links ?ex after"
    by (simp add: gather_links_def)
  then show ?thesis by (simp add: gather_links_append)
qed

lemma export_cong:
  assumes "gather ex D1 0 0 = gather ex D2 0 0" and "dg_name D1 = dg_name D2"
    and "\<And>ex'. export_text ex' D1 = export_text ex' D2"
  shows "export ex (Inr (8, D1)) outdir filename fs = export ex (Inr (8, D2)) outdir filename fs"
  by (simp add: export_def assms cong: sum.case_cong)

lemma export_dangling:
  assumes "gather_objects ex objs 0 0 = Inr ex1"
    and "resolve_endpoint_uid ex1 dLnk dConn ''source'' = None \<or>
         resolve_endpoint_uid ex1 dLnk dConn ''target'' = None"
  shows "export ex (Inr (8, Diagram nm ty objs (before @ (dLnk, dConn) # after))) outdir filename fs =
         export ex (Inr (8, Diagram nm ty objs (before @ after))) outdir filename fs"
proof (rule export_cong)
  let ?m = "gather_members ex1"
  have "resolve_endpoint_uid ?m dLnk dConn ''source'' = None \<or>
        resolve_endpoint_uid ?m dLnk dConn ''target'' = None"
    using assms(2) resolve_endpoint_uid_cong [of ?m ex1 dLnk dConn] by simp
  from gather_links_dangling [OF this]
  show "gather ex (Diagram nm ty objs (before @ (dLnk, dConn) # after)) 0 0 =
        gather ex (Diagram nm ty objs (before @ after)) 0 0"
    using assms(1) by simp
next
  show "dg_name (Diagram nm ty objs (before @ (dLnk, dConn) # after)) =
        dg_name (Diagram nm ty objs (before @ after))" by simp
next
  fix ex'
  have h: "render_header ex' (Diagram nm ty objs (before @ (dLnk, dConn) # after)) =
           render_header ex' (Diagram nm ty objs (before @ after))"
    by (simp add: render_header_def)
  show "export_text ex' (Diagram nm ty objs (before @ (dLnk, dConn) # after)) =
        export_text ex' (Diagram nm ty objs (before @ after))"
    unfolding export_text_def is_sequence_diagram_def h by simp
qed

lemma component_render_dangling:
  assumes "dict_get (index_elements diagram) (ce_element_id (mc_source c)) = None \<or>
           dict_get (index_elements diagram) (ce_element_id (mc_target c)) = None"
  shows "component_render (diagram\<lparr>md_connectors := cs1 @ c # cs2\<rparr>) out cfg =
         component_render (diagram\<lparr>md_connectors := cs1 @ cs2\<rparr>) out cfg"
proof -
  have "component_connector_line cfg (index_elements diagram) c = None"
    using assms by (auto simp: component_connector_line_def split: option.splits)
  then show ?thesis
    by (simp add: component_render_def index_elements_def Let_def)
qed

text \<open>
  C7. A link with an endpoint that resolves neither by its instance identity nor through
  the index of model element ids leaves no trace: the export of the diagram with the link
  is the export of the diagram without it, result and file system alike, so no error is
  raised and no line is written for it. In the component handler of the package, a
  connector with an end that is not in the element index is skipped in the same way.
\<close>

theorem dangling_connector_omitted:
  "(gather_objects ex objs 0 0 = Inr ex1 \<and>
    (resolve_endpoint_uid ex1 dLnk dConn ''source'' = None \<or>
     resolve_endpoint_uid ex1 dLnk dConn ''target'' = None) \<longrightarrow>
    export ex (Inr (8, Diagram nm ty objs (before @ (dLnk, dConn) # after))) outdir filename fs =
    export ex (Inr (8, Diagram nm ty objs (before @ after))) outdir filename fs) \<and>
   (dict_get (index_elements diagram) (ce_element_id (mc_source c)) = None \<or>
    dict_get (index_elements diagram) (ce_element_id (mc_target c)) = None \<longrightarrow>
    component_render (diagram\<lparr>md_connectors := cs1 @ c # cs2\<rparr>) out cfg =
    component_render (diagram\<lparr>md_connectors := cs1 @ cs2\<rparr>) out cfg)"
  using export_dangling component_render_dangling by blast

theorem dangling_connector_omitted_witness:
  "gather_objects default_exporter two_components 0 0 = Inr (gathered (labelled_diagram False)) \<and>
   resolve_endpoint_uid (gathered (labelled_diagram False))
     (fst (example_link False 1 99)) (snd (example_link False 1 99)) ''target'' = None \<and>
   export default_exporter
     (Inr (8, Diagram ''L'' ''Component'' two_components
                ([] @ (fst (example_link False 1 99), snd (example_link False 1 99))
                      # [example_link False 1 2])))
     ''output'' None Map.empty =
   export default_exporter
     (Inr (8, Diagram ''L'' ''Component'' two_components ([] @ [example_link False 1 2])))
     ''output'' None Map.empty \<and>
   dict_get (index_elements (example_m_diagram ''Component''))
     (ce_element_id (mc_target (md_connectors (example_m_diagram ''Component'') ! 1))) = None \<and>
   component_render
     ((example_m_diagram ''Component'')
        \<lparr>md_connectors := [md_connectors (example_m_diagram ''Component'') ! 0]
                           @ md_connectors (example_m_diagram ''Component'') ! 1 # []\<rparr>)
     (new_writer None None) example_config =
   component_render
     ((example_m_diagram ''Component'')
        \<lparr>md_connectors := [md_connectors (example_m_diagram ''Component'') ! 0] @ []\<rparr>)
     (new_writer None None) example_config"
proof -
  let ?E = "gathered (labelled_diagram False)"
  let ?l = "fst (example_link False 1 99)"
  let ?c = "snd (example_link False 1 99)"
  let ?D = "example_m_diagram ''Component''"
  have "\<not> isl (gather_objects default_exporter two_components 0 0)" by code_simp
  then obtain E where e: "gather_objects default_exporter two_components 0 0 = Inr E"
    by (cases "gather_objects default_exporter two_components 0 0") auto
  then have h1: "gather_objects default_exporter two_components 0 0 = Inr ?E"
    by (simp add: gathered_def labelled_diagram_def)
  have h2: "resolve_endpoint_uid ?E ?l ?c ''target'' = None" by code_simp
  have h3: "dict_get (index_elements ?D) (ce_element_id (mc_target (md_connectors ?D ! 1))) = None"
    by code_simp
  note t = dangling_connector_omitted
    [where ex = default_exporter and objs = two_components and ?ex1.0 = ?E and dLnk = ?l
       and dConn = ?c and nm = "''L''" and ty = "''Component''" and before = "[]"
       and after = "[example_link False 1 2]" and outdir = "''output''" and filename = None
       and fs = Map.empty and diagram = ?D and c = "md_connectors ?D ! 1"
       and ?cs1.0 = "[md_connectors ?D ! 0]" and ?cs2.0 = "[]" and out = "new_writer None None"
       and cfg = example_config]
  have c1: "export default_exporter
     (Inr (8, Diagram ''L'' ''Component'' two_components
                ([] @ (?l, ?c) # [example_link False 1 2])))
     ''output'' None Map.empty =
   export default_exporter
     (Inr (8, Diagram ''L'' ''Component'' two_components ([] @ [example_link False 1 2])))
     ''output'' None Map.empty"
    using t h1 h2 by blast
  have c2: "component_render (?D\<lparr>md_connectors := [md_connectors ?D ! 0] @ md_connectors ?D ! 1 # []\<rparr>)
              (new_writer None None) example_config =
            component_render (?D\<lparr>md_connectors := [md_connectors ?D ! 0] @ []\<rparr>)
              (new_writer None None) example_config"
    using t h3 by blast
  from h1 h2 c1 h3 c2 show ?thesis by (intro conjI)
qed

section \<open>Edge labels\<close>

text \<open>
  C8 as stated fails for the structural strategy of the monolith: with the policy
  \<open>both\<close>, name and stereotype are joined by one space, not by \<open>" / "\<close>; and on a link
  flagged hidden-labels only the name is dropped, the stereotype is still shown.
\<close>

theorem structural_label_space_joined:
  "(case gather default_exporter (labelled_diagram False) 0 0 of
      Inl e \<Rightarrow> Inl e | Inr ex \<Rightarrow> Inr (render_connectors ex)) =
     Inr (''A --> B : uses <<call>>'' @ nl) \<and>
   (case gather default_exporter (labelled_diagram True) 0 0 of
      Inl e \<Rightarrow> Inl e | Inr ex \<Rightarrow> Inr (render_connectors ex)) =
     Inr (''A --> B : <<call>>'' @ nl)"
  by code_simp

text \<open>
  C8, amended. In the monolith the label is \<open>" : "\<close> followed by the selected parts
  joined by one space; the name is selected under the policies \<open>name\<close> and \<open>both\<close> when
  the link is not flagged hidden-labels and the name is not empty, the stereotype (in
  double angle brackets) under \<open>stereotype\<close> and \<open>both\<close> when it is not empty, whatever
  the flag; with no part selected there is no label. In the component handler of the
  package the parts are joined by \<open>" / "\<close> and there is no hidden-labels flag.
\<close>

theorem edge_label_policy:
  "connector_label ex c =
     (if edge_labels ex \<in> set [''name'', ''both''] \<and> \<not> cn_hidden_labels c \<and> cn_name c \<noteq> []
      then (if edge_labels ex \<in> set [''stereotype'', ''both''] \<and> cn_stereotype c \<noteq> []
            then '' : '' @ cn_name c @ '' '' @ ''<<'' @ cn_stereotype c @ ''>>''
            else '' : '' @ cn_name c)
      else (if edge_labels ex \<in> set [''stereotype'', ''both''] \<and> cn_stereotype c \<noteq> []
            then '' : '' @ ''<<'' @ cn_stereotype c @ ''>>''
            else '''')) \<and>
   component_label cfg m =
     (if cfg_edge_labels cfg \<in> set [Some ''name'', Some ''both''] \<and>
         truthy (dict_get (mc_labels m) ''name'')
      then (if cfg_edge_labels cfg \<in> set [Some ''stereotype'', Some ''both''] \<and>
               truthy (mc_stereotype m)
            then '' : '' @ the (dict_get (mc_labels m) ''name'') @ '' / '' @
                 ''<<'' @ the (mc_stereotype m) @ ''>>''
            else '' : '' @ the (dict_get (mc_labels m) ''name''))
      else (if cfg_edge_labels cfg \<in> set [Some ''stereotype'', Some ''both''] \<and>
               truthy (mc_stereotype m)
            then '' : '' @ ''<<'' @ the (mc_stereotype m) @ ''>>''
            else ''''))"
  by (simp add: connector_label_def component_label_def Let_def)

section \<open>Unknown diagram types\<close>

text \<open>
  C4 as stated fails for the monolith: it has no registry, and a diagram of a type for
  which no handler is registered (here \<open>Deployment\<close>) is rendered by the structural
  strategy and written to a file.
\<close>

theorem monolith_renders_unregistered_type:
  "dict_get REGISTRY (lower (strip ''Deployment'')) = None \<and>
   fst (export default_exporter (Inr (8, deployment_diagram)) ''output'' None Map.empty) =
     Inr (''output'', ''D.puml'') \<and>
   snd (export default_exporter (Inr (8, deployment_diagram)) ''output'' None Map.empty)
       (''output'', ''D.puml'') =
     Some (join nl [''@startuml'', ''title '' @ [dq] @ ''D'' @ [dq], '''',
                    ''node '' @ [dq] @ ''N'' @ [dq] @ '' as N'', '''', '''', '''',
                    ''@enduml'', ''''])"
  by code_simp

text \<open>
  C4, amended. In the pipeline of the package, \<open>run\<close>, a diagram whose type (stripped,
  in lower case) is not a key of the registry makes the run fail with the \<open>KeyError\<close>
  \<open>No handler registered for diagram type\<close>, and the file system is left as it was.
\<close>

theorem unknown_diagram_type_fails:
  assumes "dict_get reg (lower (strip (md_type diagram))) = None"
  shows "run reg cfg (Inr diagram) fs =
           (Inl (KeyError (''No handler registered for diagram type: ''
                           @ repr_str (md_type diagram))), fs)"
  using assms by (simp add: run_def resolve_def Let_def)

theorem unknown_diagram_type_fails_witness:
  "dict_get REGISTRY (lower (strip (md_type (example_m_diagram ''Deployment'')))) = None \<and>
   run REGISTRY example_config (Inr (example_m_diagram ''Deployment'')) Map.empty =
     (Inl (KeyError (''No handler registered for diagram type: ''
                     @ [CHR 0x27] @ ''Deployment'' @ [CHR 0x27])), Map.empty)"
proof -
  have h: "dict_get REGISTRY (lower (strip (md_type (example_m_diagram ''Deployment'')))) = None"
    by code_simp
  have r: "repr_str (md_type (example_m_diagram ''Deployment'')) =
           [CHR 0x27] @ ''Deployment'' @ [CHR 0x27]"
    by code_simp
  from unknown_diagram_type_fails [OF h, of example_config Map.empty] r h
  show ?thesis by simp
qed

section \<open>The dicts that \<open>gather\<close> builds\<close>

text \<open>
  Every state that \<open>gather\<close> returns from a fresh exporter is \<open>keyed\<close>: the hypotheses on
  the dicts in the theorems on membership and blocks hold for all of them.
\<close>

lemma set_dict_set_subset: "set (dict_set d k v) \<subseteq> insert (k, v) (set d)"
  by (induction d) (auto split: if_splits)

lemma gather_object_elements:
  "\<exists>el. elements (gather_object ex p cx cy) =
          dict_set (elements ex) (do_instance_guid (p_dobj p)) el"
  by (auto simp: gather_object_def Let_def split: prod.splits)

lemma gather_object_packages:
  "packages (gather_object ex p cx cy) = packages ex \<or>
   (\<exists>pk. pk_guid pk = do_instance_guid (p_dobj p) \<and>
         packages (gather_object ex p cx cy) =
         dict_set (packages ex) (do_instance_guid (p_dobj p)) pk)"
  by (auto simp: gather_object_def Let_def split: prod.splits intro!: exI)

lemma keyed_gather_object:
  assumes "keyed ex"
  shows "keyed (gather_object ex p cx cy)"
proof -
  let ?ex = "gather_object ex p cx cy"
  from gather_object_elements [of ex p cx cy] assms
  have e: "distinct (map fst (elements ?ex))"
    by (auto simp: keyed_def distinct_dict_set)
  have "distinct (map fst (packages ?ex)) \<and> (\<forall>(k, p) \<in> set (packages ?ex). pk_guid p = k)"
  proof (rule disjE [OF gather_object_packages [of ex p cx cy]])
    assume "packages ?ex = packages ex"
    with assms show ?thesis by (simp add: keyed_def)
  next
    assume "\<exists>pk. pk_guid pk = do_instance_guid (p_dobj p) \<and>
              packages ?ex = dict_set (packages ex) (do_instance_guid (p_dobj p)) pk"
    then obtain pk where g: "pk_guid pk = do_instance_guid (p_dobj p)"
      and eq: "packages ?ex = dict_set (packages ex) (do_instance_guid (p_dobj p)) pk"
      by blast
    have "\<And>k q. (k, q) \<in> set (packages ?ex) \<Longrightarrow> pk_guid q = k"
    proof -
      fix k q assume "(k, q) \<in> set (packages ?ex)"
      with eq set_dict_set_subset [of "packages ex" "do_instance_guid (p_dobj p)" pk]
      have "(k, q) = (do_instance_guid (p_dobj p), pk) \<or> (k, q) \<in> set (packages ex)"
        by auto
      with g assms show "pk_guid q = k" unfolding keyed_def by blast
    qed
    moreover from assms have "distinct (map fst (packages ?ex))"
      unfolding eq by (simp add: keyed_def distinct_dict_set)
    ultimately show ?thesis by blast
  qed
  with e show ?thesis by (simp add: keyed_def)
qed

lemma gather_link_packages [simp]: "packages (gather_link ex l) = packages ex"
  by (auto simp: gather_link_def Let_def split: prod.splits)

lemma gather_links_packages [simp]: "packages (gather_links ex ls) = packages ex"
  unfolding gather_links_def by (induction ls arbitrary: ex) simp_all

lemma keyed_gather_links_members:
  "keyed ex \<Longrightarrow> keyed (gather_links (gather_members ex) links)"
  by (simp add: keyed_def)

lemma keyed_gather:
  "keyed ex \<longrightarrow> (\<forall>ex'. gather ex d cx cy = Inr ex' \<longrightarrow> keyed ex')"
  "keyed ex \<longrightarrow> (\<forall>ex'. gather_objects ex ps cx cy = Inr ex' \<longrightarrow> keyed ex')"
proof (induction ex d cx cy and ex ps cx cy rule: gather_gather_objects.induct)
  case (1 ex nm ty objs links cornerX cornerY)
  then show ?case
    by (auto simp: keyed_gather_links_members split: sum.splits)
next
  case (2 ex cornerX cornerY)
  then show ?case by simp
next
  case (3 ex dObj dElem rt sub ps cornerX cornerY)
  let ?ex1 = "gather_object ex (Placed dObj dElem rt sub) cornerX cornerY"
  show ?case
  proof (intro impI allI)
    fix ex'
    assume k: "keyed ex"
      and g: "gather_objects ex (Placed dObj dElem rt sub # ps) cornerX cornerY = Inr ex'"
    from k have k1: "keyed ?ex1" by (rule keyed_gather_object)
    show "keyed ex'"
    proof (cases "e_type dElem = ''UMLDiagram''")
      case False
      with g have "gather_objects ?ex1 ps cornerX cornerY = Inr ex'" by (simp add: Let_def)
      with "3.IH"(3) [OF refl False] k1 show ?thesis by blast
    next
      case True
      with g obtain d where s: "sub = Some d"
        by (cases sub) (auto simp: Let_def)
      with g True obtain ex2 where
        g1: "gather ?ex1 d (do_left dObj) (- do_top dObj) = Inr ex2"
        and g2: "gather_objects ex2 ps cornerX cornerY = Inr ex'"
        by (cases "gather ?ex1 d (do_left dObj) (- do_top dObj)")
           (auto simp: Let_def simp del: gather.simps)
      from "3.IH"(1) [OF refl True s] k1 g1 have "keyed ex2" by blast
      with "3.IH"(2) [OF refl True s g1] g2 show ?thesis by blast
    qed
  qed
qed

lemma keyed_new_exporter: "keyed (new_exporter a b c d e f g h i j)"
  by (simp add: keyed_def new_exporter_def)

section \<open>Runs on the same model input\<close>

lemma sanitize_alias_stable:
  "sub_nonalnum_empty guid \<noteq> [] \<Longrightarrow> sanitize_alias rt guid = sanitize_alias rt' guid"
  by (auto simp: sanitize_alias_def Let_def sub_nonalnum_empty_def)

lemma make_alias_stable:
  "mode af \<noteq> ''uuid'' \<or> sub_nonalnum_empty guid \<noteq> [] \<Longrightarrow>
   make_alias rt af guid name = make_alias rt' af guid name"
  using sanitize_alias_stable [of guid rt rt'] by (auto simp: make_alias_def)

lemma gather_object_stable:
  assumes "mode (alias_factory ex) \<noteq> ''uuid'' \<or> sub_nonalnum_empty (do_instance_guid dObj) \<noteq> []"
  shows "gather_object ex (Placed dObj dElem rt sub) cx cy =
         gather_object ex (Placed dObj dElem rt' sub') cx cy"
  using make_alias_stable [OF assms, of rt _ rt']
  by (simp add: gather_object_def)

lemma mode_make_alias: "mode (snd (make_alias rt af guid name)) = mode af"
  by (simp add: make_alias_def Let_def)

lemma mode_gather_object [simp]:
  "mode (alias_factory (gather_object ex p cx cy)) = mode (alias_factory ex)"
  using mode_make_alias [of "p_rt p" "alias_factory ex" "do_instance_guid (p_dobj p)"
                            "e_name (p_elem p)"]
  by (auto simp: gather_object_def Let_def split: prod.splits)

lemma gather_members_alias_factory [simp]:
  "alias_factory (gather_members ex) = alias_factory ex"
  by (simp add: gather_members_def)

lemma gather_link_alias_factory [simp]: "alias_factory (gather_link ex l) = alias_factory ex"
  by (auto simp: gather_link_def Let_def split: prod.splits)

lemma gather_links_alias_factory [simp]: "alias_factory (gather_links ex ls) = alias_factory ex"
  unfolding gather_links_def by (induction ls arbitrary: ex) simp_all

lemma mode_gather:
  "\<forall>ex'. gather ex d cx cy = Inr ex' \<longrightarrow> mode (alias_factory ex') = mode (alias_factory ex)"
  "\<forall>ex'. gather_objects ex ps cx cy = Inr ex' \<longrightarrow>
         mode (alias_factory ex') = mode (alias_factory ex)"
proof (induction ex d cx cy and ex ps cx cy rule: gather_gather_objects.induct)
  case (1 ex nm ty objs links cornerX cornerY)
  show ?case
  proof (intro allI impI)
    fix ex'
    assume g: "gather ex (Diagram nm ty objs links) cornerX cornerY = Inr ex'"
    then obtain ex1 where o: "gather_objects ex objs cornerX cornerY = Inr ex1"
      and e: "ex' = gather_links (gather_members ex1) links"
      by (cases "gather_objects ex objs cornerX cornerY") auto
    from "1.IH" o have "mode (alias_factory ex1) = mode (alias_factory ex)" by blast
    moreover have "mode (alias_factory ex') = mode (alias_factory ex1)" by (simp add: e)
    ultimately show "mode (alias_factory ex') = mode (alias_factory ex)" by (rule trans [rotated])
  qed
next
  case (2 ex cornerX cornerY)
  show ?case by simp
next
  case (3 ex dObj dElem rt sub ps cornerX cornerY)
  let ?ex1 = "gather_object ex (Placed dObj dElem rt sub) cornerX cornerY"
  have m1: "mode (alias_factory ?ex1) = mode (alias_factory ex)" by simp
  show ?case
  proof (intro impI allI)
    fix ex'
    assume g: "gather_objects ex (Placed dObj dElem rt sub # ps) cornerX cornerY = Inr ex'"
    show "mode (alias_factory ex') = mode (alias_factory ex)"
    proof (cases "e_type dElem = ''UMLDiagram''")
      case False
      with g have "gather_objects ?ex1 ps cornerX cornerY = Inr ex'" by (simp add: Let_def)
      with "3.IH"(3) [OF refl False]
      have "mode (alias_factory ex') = mode (alias_factory ?ex1)" by blast
      then show ?thesis using m1 by (rule trans)
    next
      case True
      with g obtain d where s: "sub = Some d"
        by (cases sub) (auto simp: Let_def)
      with g True obtain ex2 where
        g1: "gather ?ex1 d (do_left dObj) (- do_top dObj) = Inr ex2"
        and g2: "gather_objects ex2 ps cornerX cornerY = Inr ex'"
        by (cases "gather ?ex1 d (do_left dObj) (- do_top dObj)")
           (auto simp: Let_def simp del: gather.simps)
      from "3.IH"(1) [OF refl True s] g1
      have a: "mode (alias_factory ex2) = mode (alias_factory ?ex1)" by blast
      from "3.IH"(2) [OF refl True s g1] g2
      have b: "mode (alias_factory ex') = mode (alias_factory ex2)" by blast
      from b a have "mode (alias_factory ex') = mode (alias_factory ?ex1)" by (rule trans)
      then show ?thesis using m1 by (rule trans)
    qed
  qed
qed

lemma gather_erase_rt:
  "mode (alias_factory ex) \<noteq> ''uuid'' \<or> stable_guids d \<longrightarrow>
     gather ex d cx cy = gather ex (erase_rt d) cx cy"
  "mode (alias_factory ex) \<noteq> ''uuid'' \<or> list_all stable_guids_placed ps \<longrightarrow>
     gather_objects ex ps cx cy = gather_objects ex (map erase_rt_placed ps) cx cy"
proof (induction ex d cx cy and ex ps cx cy rule: gather_gather_objects.induct)
  case (1 ex nm ty objs links cornerX cornerY)
  then show ?case by simp
next
  case (2 ex cornerX cornerY)
  then show ?case by simp
next
  case (3 ex dObj dElem rt sub ps cornerX cornerY)
  show ?case
  proof
    assume st: "mode (alias_factory ex) \<noteq> ''uuid'' \<or>
                list_all stable_guids_placed (Placed dObj dElem rt sub # ps)"
    have g: "mode (alias_factory ex) \<noteq> ''uuid'' \<or>
             sub_nonalnum_empty (do_instance_guid dObj) \<noteq> []"
      using st by auto
    have sps0: "mode (alias_factory ex) \<noteq> ''uuid'' \<or> list_all stable_guids_placed ps"
      using st by auto
    have ssub0: "\<And>d. sub = Some d \<Longrightarrow> mode (alias_factory ex) \<noteq> ''uuid'' \<or> stable_guids d"
      using st by auto
    have sps: "\<And>ex'. mode (alias_factory ex') = mode (alias_factory ex) \<Longrightarrow>
                  mode (alias_factory ex') \<noteq> ''uuid'' \<or> list_all stable_guids_placed ps"
      using sps0 by simp
    have ssub: "\<And>d ex'. sub = Some d \<Longrightarrow> mode (alias_factory ex') = mode (alias_factory ex) \<Longrightarrow>
                  mode (alias_factory ex') \<noteq> ''uuid'' \<or> stable_guids d"
      using ssub0 by simp
    let ?ex1 = "gather_object ex (Placed dObj dElem rt sub) cornerX cornerY"
    have m1: "mode (alias_factory ?ex1) = mode (alias_factory ex)" by simp
    have e1: "gather_object ex (Placed dObj dElem example_runtime (map_option erase_rt sub))
                cornerX cornerY = ?ex1"
      by (rule gather_object_stable [OF g, symmetric])
    show "gather_objects ex (Placed dObj dElem rt sub # ps) cornerX cornerY =
          gather_objects ex (map erase_rt_placed (Placed dObj dElem rt sub # ps)) cornerX cornerY"
    proof (cases "e_type dElem = ''UMLDiagram''")
      case False
      with "3.IH"(3) [OF refl False] sps [OF m1] e1 show ?thesis by (simp add: Let_def)
    next
      case True
      show ?thesis
      proof (cases sub)
        case None
        with True e1 show ?thesis by (simp add: Let_def)
      next
        case (Some d)
        from "3.IH"(1) [OF refl True Some] ssub [OF Some m1]
        have gd: "gather ?ex1 d (do_left dObj) (- do_top dObj) =
                  gather ?ex1 (erase_rt d) (do_left dObj) (- do_top dObj)" by simp
        show ?thesis
        proof (cases "gather ?ex1 d (do_left dObj) (- do_top dObj)")
          case (Inl e)
          with True Some e1 gd show ?thesis by (simp add: Let_def del: gather.simps)
        next
          case (Inr ex2)
          from mode_gather(1) [of ?ex1 d "do_left dObj" "- do_top dObj"] Inr
          have "mode (alias_factory ex2) = mode (alias_factory ?ex1)" by blast
          then have m2: "mode (alias_factory ex2) = mode (alias_factory ex)"
            using m1 by (rule trans)
          from "3.IH"(2) [OF refl True Some Inr] sps [OF m2]
          have "gather_objects ex2 ps cornerX cornerY =
                gather_objects ex2 (map erase_rt_placed ps) cornerX cornerY" by simp
          with True Some e1 gd Inr show ?thesis by (simp add: Let_def del: gather.simps)
        qed
      qed
    qed
  qed
qed

lemma export_cong_any:
  assumes "gather ex D1 0 0 = gather ex D2 0 0" and "dg_name D1 = dg_name D2"
    and "\<And>ex'. export_text ex' D1 = export_text ex' D2"
  shows "export ex (Inr (t, D1)) outdir filename fs = export ex (Inr (t, D2)) outdir filename fs"
  by (simp add: export_def assms cong: sum.case_cong)

lemma erase_rt_fields [simp]:
  "dg_name (erase_rt d) = dg_name d" "dg_type (erase_rt d) = dg_type d"
  by (cases d; simp)+

lemma export_erase_rt:
  assumes "mode (alias_factory ex) \<noteq> ''uuid'' \<or> stable_guids d"
  shows "export ex (Inr (t, d)) outdir filename fs =
         export ex (Inr (t, erase_rt d)) outdir filename fs"
proof (rule export_cong_any)
  show "gather ex d 0 0 = gather ex (erase_rt d) 0 0"
    using gather_erase_rt(1) [of ex d 0 0] assms by simp
next
  show "dg_name d = dg_name (erase_rt d)" by simp
next
  fix ex'
  have h: "render_header ex' d = render_header ex' (erase_rt d)"
    by (simp add: render_header_def)
  show "export_text ex' d = export_text ex' (erase_rt d)"
    unfolding export_text_def is_sequence_diagram_def h by simp
qed

lemma export_same_model:
  assumes "erase_rt d1 = erase_rt d2"
    and "mode (alias_factory ex) \<noteq> ''uuid'' \<or> (stable_guids d1 \<and> stable_guids d2)"
  shows "export ex (Inr (t, d1)) outdir filename fs = export ex (Inr (t, d2)) outdir filename fs"
proof -
  have "export ex (Inr (t, d1)) outdir filename fs =
        export ex (Inr (t, erase_rt d1)) outdir filename fs"
    using assms(2) by (intro export_erase_rt) blast
  also have "\<dots> = export ex (Inr (t, erase_rt d2)) outdir filename fs"
    by (simp only: assms(1))
  also have "\<dots> = export ex (Inr (t, d2)) outdir filename fs"
    using assms(2) by (intro export_erase_rt [symmetric]) blast
  finally show ?thesis .
qed

lemma uuid_alias_stable:
  assumes "mode af1 = ''uuid''" and "mode af2 = ''uuid''" and "guid \<noteq> []"
    and "sub_nonalnum_empty guid \<noteq> [] \<or> hash_str rt1 guid = hash_str rt2 guid"
  shows "fst (make_alias rt1 af1 guid name1) = fst (make_alias rt2 af2 guid name2)"
  using assms by (auto simp: make_alias_def sanitize_alias_def Let_def)

lemma uuid_alias_value:
  assumes "mode af1 = ''uuid''" and "sub_nonalnum_empty guid \<noteq> []"
  shows "fst (make_alias rt1 af1 guid name1) = ''E_'' @ take 16 (sub_nonalnum_empty guid)"
  using assms by (auto simp: make_alias_def sanitize_alias_def Let_def sub_nonalnum_empty_def)

text \<open>
  C2 as stated fails: with an empty GUID the opaque alias is built from the bytes of
  \<open>os.urandom(4)\<close>, so two runs that draw different bytes give the same shape different
  aliases and write different texts.
\<close>

theorem empty_guid_alias_not_reproducible:
  "fst (make_alias runtime_a (new_alias_factory ''uuid'') '''' ''Foo'') = ''E_1'' \<and>
   fst (make_alias runtime_b (new_alias_factory ''uuid'') '''' ''Foo'') = ''E_2'' \<and>
   snd (export uuid_exporter (Inr (8, guid_diagram runtime_a '''')) ''output'' None Map.empty)
       (''output'', ''D.puml'') =
     Some (join nl [''@startuml'', ''title '' @ [dq] @ ''D'' @ [dq], '''',
                    ''class '' @ [dq] @ ''Foo'' @ [dq] @ '' as E_1'', '''', '''', '''',
                    ''@enduml'', '''']) \<and>
   snd (export uuid_exporter (Inr (8, guid_diagram runtime_b '''')) ''output'' None Map.empty)
       (''output'', ''D.puml'') =
     Some (join nl [''@startuml'', ''title '' @ [dq] @ ''D'' @ [dq], '''',
                    ''class '' @ [dq] @ ''Foo'' @ [dq] @ '' as E_2'', '''', '''', '''',
                    ''@enduml'', ''''])"
  by code_simp

text \<open>
  C2, amended. Two runs on the same model input with the same configuration return the
  same result and write the same file when the alias mode is not the opaque one, or when
  every GUID keeps an alphanumeric character. In opaque mode the alias of a non-empty
  GUID does not depend on the random bytes: it is the same in two runs when the GUID
  keeps an alphanumeric character or the string hash of the two runs agrees on it; in
  the first case it is \<open>E_\<close> followed by the first 16 characters that are kept.
\<close>

theorem export_rerun_deterministic:
  "(erase_rt d1 = erase_rt d2 \<and>
    (mode (alias_factory ex) \<noteq> ''uuid'' \<or> (stable_guids d1 \<and> stable_guids d2)) \<longrightarrow>
      export ex (Inr (t, d1)) outdir filename fs = export ex (Inr (t, d2)) outdir filename fs) \<and>
   (mode af1 = ''uuid'' \<and> mode af2 = ''uuid'' \<and> guid \<noteq> [] \<and>
    (sub_nonalnum_empty guid \<noteq> [] \<or> hash_str rt1 guid = hash_str rt2 guid) \<longrightarrow>
      fst (make_alias rt1 af1 guid name1) = fst (make_alias rt2 af2 guid name2)) \<and>
   (mode af1 = ''uuid'' \<and> sub_nonalnum_empty guid \<noteq> [] \<longrightarrow>
      fst (make_alias rt1 af1 guid name1) = ''E_'' @ take 16 (sub_nonalnum_empty guid))"
  using export_same_model [of d1 d2 ex t outdir filename fs]
        uuid_alias_stable [of af1 af2 guid rt1 rt2 name1 name2]
        uuid_alias_value [of af1 guid rt1 name1]
  by blast

theorem export_rerun_deterministic_witness:
  "erase_rt (guid_diagram runtime_a ''{AB-12}'') = erase_rt (guid_diagram runtime_b ''{AB-12}'') \<and>
   stable_guids (guid_diagram runtime_a ''{AB-12}'') \<and>
   stable_guids (guid_diagram runtime_b ''{AB-12}'') \<and>
   export uuid_exporter (Inr (8, guid_diagram runtime_a ''{AB-12}'')) ''output'' None Map.empty =
   export uuid_exporter (Inr (8, guid_diagram runtime_b ''{AB-12}'')) ''output'' None Map.empty \<and>
   mode (new_alias_factory ''uuid'') = ''uuid'' \<and>
   sub_nonalnum_empty ''{AB-12}'' \<noteq> [] \<and>
   fst (make_alias runtime_a (new_alias_factory ''uuid'') ''{AB-12}'' ''Foo'') =
   fst (make_alias runtime_b (new_alias_factory ''uuid'') ''{AB-12}'' ''Bar'') \<and>
   fst (make_alias runtime_a (new_alias_factory ''uuid'') ''{AB-12}'' ''Foo'') = ''E_AB12''"
proof -
  let ?d1 = "guid_diagram runtime_a ''{AB-12}''"
  let ?d2 = "guid_diagram runtime_b ''{AB-12}''"
  let ?af = "new_alias_factory ''uuid''"
  have f: "sub_nonalnum_empty ''{AB-12}'' = ''AB12''"
    by (simp add: sub_nonalnum_empty_def is_alnum_def is_upper_def is_lower_def is_digit_def)
  have h1: "erase_rt ?d1 = erase_rt ?d2" by (simp add: guid_diagram_def)
  have h2: "stable_guids ?d1" and h3: "stable_guids ?d2" by (simp_all add: guid_diagram_def f)
  have m: "mode ?af = ''uuid''" by (simp add: new_alias_factory_def)
  have ne: "sub_nonalnum_empty ''{AB-12}'' \<noteq> []" by (simp add: f)
  note t = export_rerun_deterministic
    [where ?d1.0 = ?d1 and ?d2.0 = ?d2 and ex = uuid_exporter and t = 8 and outdir = "''output''"
       and filename = None and fs = Map.empty and ?af1.0 = ?af and ?af2.0 = ?af
       and guid = "''{AB-12}''" and ?rt1.0 = runtime_a and ?rt2.0 = runtime_b
       and ?name1.0 = "''Foo''" and ?name2.0 = "''Bar''"]
  have c1: "export uuid_exporter (Inr (8, ?d1)) ''output'' None Map.empty =
            export uuid_exporter (Inr (8, ?d2)) ''output'' None Map.empty"
    using t h1 h2 h3 by blast
  have c2: "fst (make_alias runtime_a ?af ''{AB-12}'' ''Foo'') =
            fst (make_alias runtime_b ?af ''{AB-12}'' ''Bar'')"
    using t m ne by blast
  have "fst (make_alias runtime_a ?af ''{AB-12}'' ''Foo'') =
        ''E_'' @ take 16 (sub_nonalnum_empty ''{AB-12}'')"
    using t m ne by blast
  then have c3: "fst (make_alias runtime_a ?af ''{AB-12}'' ''Foo'') = ''E_AB12''"
    by (simp add: f)
  from h1 h2 h3 c1 m ne c2 c3 show ?thesis by (intro conjI)
qed

end
